theory Spec2Isabelle
  imports Complex_Main "HOL-Library.Word" "HOL-Library.Sublist"
begin

section \<open>JavaScript values\<close>

text \<open>
  A JavaScript string is a sequence of UTF-16 code units. Literals of the source are
  written \<open>js ''...''\<close>. A \<open>number\<close> that is only stored, compared with 0 and passed
  on (a coordinate, a row limit, the rating of a rating control) is modelled by its real
  value. The ratings that \<open>avgRating\<close> adds and divides are IEEE doubles, modelled
  below with their rounding.
\<close>

type_synonym jschar = "16 word"
type_synonym jsstring = "jschar list"
type_synonym number = real

definition js :: "string \<Rightarrow> jsstring" where
  "js s = map of_char s"

text \<open>
  \<open>String.prototype.trim\<close> removes the ECMAScript WhiteSpace and LineTerminator code
  points from both ends: TAB, LF, VT, FF, CR, SP, NBSP, U+1680, U+2000..U+200A, U+2028,
  U+2029, U+202F, U+205F, U+3000 and U+FEFF.
\<close>

definition is_ws :: "jschar \<Rightarrow> bool" where
  "is_ws c = (c \<in> {0x9, 0xA, 0xB, 0xC, 0xD, 0x20, 0xA0, 0x1680,
     0x2000, 0x2001, 0x2002, 0x2003, 0x2004, 0x2005, 0x2006, 0x2007, 0x2008, 0x2009, 0x200A,
     0x2028, 0x2029, 0x202F, 0x205F, 0x3000, 0xFEFF})"

definition trim :: "jsstring \<Rightarrow> jsstring" where
  "trim s = rev (dropWhile is_ws (rev (dropWhile is_ws s)))"

text \<open>\<open>a ?? b\<close> on a value that may be \<open>undefined\<close> or \<open>null\<close> (\<open>None\<close>).\<close>

definition nullish :: "'a option \<Rightarrow> 'a \<Rightarrow> 'a" where
  "nullish a b = (case a of None \<Rightarrow> b | Some v \<Rightarrow> v)"

text \<open>\<open>s || null\<close> on a string: the empty string is falsy.\<close>

definition or_null :: "jsstring \<Rightarrow> jsstring option" where
  "or_null s = (if s = [] then None else Some s)"

datatype exn = TypeError

section \<open>IEEE doubles\<close>

text \<open>
  A double is NaN, an infinity with its sign (\<open>True\<close> is negative), or a finite value
  with its sign and its magnitude; \<open>Finite s 0\<close> are the two zeros. The magnitude of a
  double is a multiple \<open>m * 2 ^ e\<close> with \<open>m < 2 ^ 53\<close> and \<open>- 1074 \<le> e \<le> 971\<close>.
\<close>

datatype double = NaN | Infinity bool | Finite bool real

text \<open>
  Rounding to nearest, ties to even, of a magnitude \<open>x > 0\<close>: the doubles near \<open>x\<close> are
  the multiples of \<open>quantum x\<close>, the power of two 52 binary places below the leading bit
  of \<open>x\<close> and not below \<open>2 ^ - 1074\<close> (the subnormal spacing). A result of \<open>2 ^ 1024\<close>
  or more overflows to the infinity.
\<close>

definition round_half_even :: "real \<Rightarrow> int" where
  "round_half_even y =
     (let f = \<lfloor>y\<rfloor>
      in if y - of_int f < 1 / 2 then f
         else if y - of_int f > 1 / 2 then f + 1
         else if even f then f else f + 1)"

definition quantum :: "real \<Rightarrow> real" where
  "quantum x = 2 powi (max (\<lfloor>log 2 x\<rfloor> - 52) (- 1074))"

definition round_double :: "real \<Rightarrow> real" where
  "round_double x =
     (if x = 0 then 0 else of_int (round_half_even (x / quantum x)) * quantum x)"

definition overflow_threshold :: real where
  "overflow_threshold = 2 ^ 1024"

definition finish :: "bool \<Rightarrow> real \<Rightarrow> double" where
  "finish s x =
     (if overflow_threshold \<le> round_double x then Infinity s else Finite s (round_double x))"

definition with_sign :: "bool \<Rightarrow> real \<Rightarrow> real" where
  "with_sign s a = (if s then - a else a)"

text \<open>
  \<open>x + y\<close>. An exact sum of zero is \<open>+0\<close>, except that \<open>-0 + -0\<close> is \<open>-0\<close>.
\<close>

fun fadd :: "double \<Rightarrow> double \<Rightarrow> double" where
  "fadd NaN y = NaN"
| "fadd x NaN = NaN"
| "fadd (Infinity s) (Infinity t) = (if s = t then Infinity s else NaN)"
| "fadd (Infinity s) (Finite t b) = Infinity s"
| "fadd (Finite s a) (Infinity t) = Infinity t"
| "fadd (Finite s a) (Finite t b) =
     (let x = with_sign s a + with_sign t b
      in if x = 0 then Finite (s \<and> t) 0 else finish (x < 0) \<bar>x\<bar>)"

text \<open>\<open>x / y\<close>. The sign of the quotient is negative when the signs differ.\<close>

fun fdiv :: "double \<Rightarrow> double \<Rightarrow> double" where
  "fdiv NaN y = NaN"
| "fdiv x NaN = NaN"
| "fdiv (Infinity s) (Infinity t) = NaN"
| "fdiv (Infinity s) (Finite t b) = Infinity (s \<noteq> t)"
| "fdiv (Finite s a) (Infinity t) = Finite (s \<noteq> t) 0"
| "fdiv (Finite s a) (Finite t b) =
     (if b = 0 then (if a = 0 then NaN else Infinity (s \<noteq> t))
      else finish (s \<noteq> t) (a / b))"

text \<open>The real value of a finite double.\<close>

fun value_of :: "double \<Rightarrow> real" where
  "value_of (Finite s a) = with_sign s a"
| "value_of d = 0"

section \<open>Data model\<close>

text \<open>The types \<open>Spot\<close> and \<open>Review\<close> of \<open>app/index.tsx\<close>; fields carry a prefix.\<close>

record spot =
  sp_id :: jsstring
  sp_name :: jsstring
  sp_description :: "jsstring option"
  sp_lat :: number
  sp_lng :: number
  sp_created_at :: jsstring

record review =
  rv_id :: jsstring
  rv_spot_id :: jsstring
  rv_rating :: double
  rv_created_at :: jsstring

record region =
  latitude :: number
  longitude :: number
  latitudeDelta :: number
  longitudeDelta :: number

definition GRAND_RAPIDS :: region where
  "GRAND_RAPIDS = \<lparr>latitude = 42.9634, longitude = - 85.6681,
     latitudeDelta = 0.15, longitudeDelta = 0.15\<rparr>"

text \<open>
  A value read from a parsed JSON document, or \<open>undefined\<close> for a property that is not
  there. In \<open>Obj\<close> the members stand in the order of the text; as \<open>JSON.parse\<close> does
  with a repeated key, the last one wins.
\<close>

datatype jsval =
  Undefined | Null | Bool bool | Num number | Str jsstring | Arr "jsval list"
| Obj "(jsstring \<times> jsval) list"

text \<open>
  The type \<open>Place\<close>. Its \<open>name\<close> and \<open>tags\<close> are whatever the response holds: the
  source casts without a check.
\<close>

record place =
  pl_id :: jsstring
  pl_name :: jsval
  pl_lat :: number
  pl_lng :: number
  pl_tags :: jsval

section \<open>The backend client\<close>

text \<open>
  A request is what the builder chain \<open>supabase.from(t). ... \<close> has accumulated when it
  is awaited. The rows inserted are \<open>{name, description, lat, lng}\<close> into \<open>spots\<close> and
  \<open>{spot_id, rating}\<close> into \<open>reviews\<close>.
\<close>

datatype row =
  SpotRow jsstring "jsstring option" number number
| ReviewRow jsstring number

datatype verb = Select string | Insert row | Delete

record query =
  q_from :: string
  q_verb :: "verb option"
  q_eq :: "(string \<times> jsstring) list"
  q_order :: "(string \<times> bool) option"
  q_limit :: "number option"
  q_returning :: bool
  q_single :: bool

definition from_table :: "string \<Rightarrow> query" where
  "from_table t = \<lparr>q_from = t, q_verb = None, q_eq = [], q_order = None, q_limit = None,
     q_returning = False, q_single = False\<rparr>"

definition select_cols :: "string \<Rightarrow> query \<Rightarrow> query" where
  "select_cols c q = q\<lparr>q_verb := Some (Select c)\<rparr>"

definition insert_row :: "row \<Rightarrow> query \<Rightarrow> query" where
  "insert_row r q = q\<lparr>q_verb := Some (Insert r)\<rparr>"

definition delete_rows :: "query \<Rightarrow> query" where
  "delete_rows q = q\<lparr>q_verb := Some Delete\<rparr>"

definition eq_filter :: "string \<Rightarrow> jsstring \<Rightarrow> query \<Rightarrow> query" where
  "eq_filter c v q = q\<lparr>q_eq := q_eq q @ [(c, v)]\<rparr>"

text \<open>\<open>.order(c, { ascending: a })\<close> and \<open>.limit(n)\<close>.\<close>

definition order_by :: "string \<Rightarrow> bool \<Rightarrow> query \<Rightarrow> query" where
  "order_by c a q = q\<lparr>q_order := Some (c, a)\<rparr>"

definition limit_rows :: "number \<Rightarrow> query \<Rightarrow> query" where
  "limit_rows n q = q\<lparr>q_limit := Some n\<rparr>"

text \<open>\<open>.select()\<close> after an insert asks for the inserted row back; \<open>.single()\<close> for one row.\<close>

definition select_returning :: "query \<Rightarrow> query" where
  "select_returning q = q\<lparr>q_returning := True\<rparr>"

definition single :: "query \<Rightarrow> query" where
  "single q = q\<lparr>q_single := True\<rparr>"

text \<open>
  Every awaited request yields \<open>{ data, error }\<close>; an error carries a \<open>message\<close>. The
  backend is external: it is a parameter, one function from the request to the reply for
  each shape of \<open>data\<close> the source casts the reply to. No handler awaits the same function
  twice, so a function of the request leaves the backend free to answer anything.
\<close>

datatype pg_error = PgError (message: jsstring)

record 'a reply =
  reply_data :: "'a option"
  reply_error :: "pg_error option"

record backend =
  be_select_spots :: "query \<Rightarrow> spot list reply"
  be_single_spot :: "query \<Rightarrow> spot reply"
  be_select_reviews :: "query \<Rightarrow> review list reply"
  be_write :: "query \<Rightarrow> unit reply"

section \<open>The spot accessors of \<open>src/libs/spots.ts\<close>\<close>

text \<open>
  Each accessor returns the requests it has issued and the reply. \<open>listSpots\<close> has the
  default argument \<open>limit = 100\<close>; \<open>createSpot\<close> inserts \<open>input.description ?? null\<close>.
\<close>

definition listSpots_query :: "number option \<Rightarrow> query" where
  "listSpots_query limit =
     limit_rows (nullish limit 100)
       (order_by ''created_at'' False (select_cols ''*'' (from_table ''spots'')))"

definition listSpots :: "backend \<Rightarrow> number option \<Rightarrow> query list \<times> spot list reply" where
  "listSpots be limit = ([listSpots_query limit], be_select_spots be (listSpots_query limit))"

definition createSpot ::
  "backend \<Rightarrow> jsstring \<Rightarrow> jsstring option \<Rightarrow> number \<Rightarrow> number \<Rightarrow> query list \<times> unit reply" where
  "createSpot be name description lat lng =
     (let q = insert_row (SpotRow name description lat lng) (from_table ''spots'')
      in ([q], be_write be q))"

section \<open>The screen state of \<open>app/index.tsx\<close>\<close>

record state =
  places :: "place list"
  placesLoading :: bool
  spots :: "spot list"
  error :: "jsstring option"
  region :: region
  loading :: bool
  spotRating :: number
  detailsOpen :: bool
  selectedSpot :: "spot option"
  spotReviews :: "review list"
  newReviewRating :: number
  newReviewComment :: jsstring
  createOpen :: bool
  pendingCoord :: "(number \<times> number) option"
  spotName :: jsstring
  spotDesc :: jsstring

text \<open>The initial values of the \<open>useState\<close> calls.\<close>

definition initial :: state where
  "initial = \<lparr>places = [], placesLoading = False, spots = [], error = None,
     region = GRAND_RAPIDS, loading = False, spotRating = 0, detailsOpen = False,
     selectedSpot = None, spotReviews = [],
     newReviewRating = 0, newReviewComment = [], createOpen = False, pendingCoord = None,
     spotName = [], spotDesc = []\<rparr>"

section \<open>Spot operations of the screen\<close>

text \<open>
  A handler is a function of the backend and the state before; it returns the requests
  it issued, in order, and the state after. A handler runs to its end before the next
  one starts.
\<close>

definition reload_query :: query where
  "reload_query =
     limit_rows 500 (order_by ''created_at'' False (select_cols ''*'' (from_table ''spots'')))"

definition reload :: "backend \<Rightarrow> state \<Rightarrow> query list \<times> state" where
  "reload be s =
     (let s1 = s\<lparr>error := None\<rparr>;
          s2 = s1\<lparr>loading := True\<rparr>;
          r = be_select_spots be reload_query;
          s3 = s2\<lparr>loading := False\<rparr>
      in case reply_error r of
           Some e \<Rightarrow> ([reload_query], s3\<lparr>error := Some (message e)\<rparr>)
         | None \<Rightarrow> ([reload_query], s3\<lparr>spots := nullish (reply_data r) []\<rparr>))"

text \<open>
  \<open>createSpotAt\<close> of \<open>app/index.tsx\<close>. After a reply with neither error nor row the
  source goes on with \<open>spot = null\<close>: \<open>spot.id\<close> raises when a rating is given, and
  otherwise \<open>null\<close> enters the list, where the next render's \<open>s.id\<close> raises.
\<close>

definition spot_insert_query :: "number \<Rightarrow> number \<Rightarrow> jsstring \<Rightarrow> jsstring option \<Rightarrow> query" where
  "spot_insert_query lat lng trimmedName description =
     single (select_returning
       (insert_row (SpotRow trimmedName (or_null (trim (nullish description []))) lat lng)
         (from_table ''spots'')))"

definition review_insert_query :: "jsstring \<Rightarrow> number \<Rightarrow> query" where
  "review_insert_query spot_id rating =
     insert_row (ReviewRow spot_id rating) (from_table ''reviews'')"

definition createSpotAt ::
  "backend \<Rightarrow> number \<Rightarrow> number \<Rightarrow> jsstring \<Rightarrow> jsstring option \<Rightarrow> number option \<Rightarrow> state
     \<Rightarrow> query list \<times> (exn + state)" where
  "createSpotAt be lat lng name description initialRating s =
     (let s1 = s\<lparr>error := None\<rparr>;
          trimmedName = trim name
      in if trimmedName = [] then ([], Inr (s1\<lparr>error := Some (js ''Name is required'')\<rparr>))
         else
           let q = spot_insert_query lat lng trimmedName description;
               r = be_single_spot be q
           in case reply_error r of
                Some spotErr \<Rightarrow> ([q], Inr (s1\<lparr>error := Some (message spotErr)\<rparr>))
              | None \<Rightarrow>
                 (case reply_data r of
                    None \<Rightarrow> ([q], Inl TypeError)
                  | Some spot \<Rightarrow>
                     if nullish initialRating 0 > 0 then
                       let q2 = review_insert_query (sp_id spot) (nullish initialRating 0);
                           r2 = be_write be q2;
                           s2 = (case reply_error r2 of
                                   Some reviewErr \<Rightarrow> s1\<lparr>error := Some (message reviewErr)\<rparr>
                                 | None \<Rightarrow> s1)
                       in ([q, q2], Inr (s2\<lparr>spots := spot # spots s2\<rparr>))
                     else ([q], Inr (s1\<lparr>spots := spot # spots s1\<rparr>))))"

definition spot_delete_query :: "jsstring \<Rightarrow> query" where
  "spot_delete_query i = eq_filter ''id'' i (delete_rows (from_table ''spots''))"

definition deleteSpotById :: "backend \<Rightarrow> jsstring \<Rightarrow> state \<Rightarrow> query list \<times> state" where
  "deleteSpotById be i s =
     (let s1 = s\<lparr>error := None\<rparr>;
          q = spot_delete_query i;
          r = be_write be q
      in case reply_error r of
           Some e \<Rightarrow> ([q], s1\<lparr>error := Some (message e)\<rparr>)
         | None \<Rightarrow>
            let s2 = s1\<lparr>spots := filter (\<lambda>sp. sp_id sp \<noteq> i) (spots s1)\<rparr>
            in if map_option sp_id (selectedSpot s) = Some i
               then ([q], s2\<lparr>detailsOpen := False, selectedSpot := None, spotReviews := []\<rparr>)
               else ([q], s2))"

section \<open>The earlier screen (\<open>unnamed/part_000\<close>)\<close>

text \<open>
  The earlier variant of the screen has the same \<open>reload\<close>, and holds only \<open>spots\<close>,
  \<open>error\<close>, \<open>region\<close>, \<open>loading\<close>, \<open>createOpen\<close>, \<open>pendingCoord\<close>, \<open>spotName\<close> and
  \<open>spotDesc\<close>; its handlers are written over the same record and touch only those. Its
  \<open>createSpotAt\<close> takes no rating and guards the row with \<open>if (data)\<close>; its
  \<open>deleteSpotById\<close> has no detail view to close.
\<close>

definition createSpotAt_v0 ::
  "backend \<Rightarrow> number \<Rightarrow> number \<Rightarrow> jsstring \<Rightarrow> jsstring option \<Rightarrow> state \<Rightarrow> query list \<times> state" where
  "createSpotAt_v0 be lat lng name description s =
     (let s1 = s\<lparr>error := None\<rparr>;
          trimmedName = trim name
      in if trimmedName = [] then ([], s1\<lparr>error := Some (js ''Name is required'')\<rparr>)
         else
           let q = spot_insert_query lat lng trimmedName description;
               r = be_single_spot be q
           in case reply_error r of
                Some e \<Rightarrow> ([q], s1\<lparr>error := Some (message e)\<rparr>)
              | None \<Rightarrow>
                 (case reply_data r of
                    None \<Rightarrow> ([q], s1)
                  | Some d \<Rightarrow> ([q], s1\<lparr>spots := d # spots s1\<rparr>)))"

definition deleteSpotById_v0 :: "backend \<Rightarrow> jsstring \<Rightarrow> state \<Rightarrow> query list \<times> state" where
  "deleteSpotById_v0 be i s =
     (let s1 = s\<lparr>error := None\<rparr>;
          q = spot_delete_query i;
          r = be_write be q
      in case reply_error r of
           Some e \<Rightarrow> ([q], s1\<lparr>error := Some (message e)\<rparr>)
         | None \<Rightarrow> ([q], s1\<lparr>spots := filter (\<lambda>sp. sp_id sp \<noteq> i) (spots s1)\<rparr>))"

section \<open>Reviews\<close>

definition loadReviews :: "backend \<Rightarrow> jsstring \<Rightarrow> state \<Rightarrow> query list \<times> state" where
  "loadReviews be spotId s =
     (let q = order_by ''created_at'' False
                (eq_filter ''spot_id'' spotId (select_cols ''*'' (from_table ''reviews'')));
          r = be_select_reviews be q
      in case reply_error r of
           Some e \<Rightarrow> ([q], s\<lparr>error := Some (message e)\<rparr>)
         | None \<Rightarrow> ([q], s\<lparr>spotReviews := nullish (reply_data r) []\<rparr>))"

text \<open>
  \<open>avgRating\<close> is computed at each render from the state's \<open>spotReviews\<close> (the
  argument here); \<open>reduce\<close> is a left fold from \<open>+0\<close>, and the length of an array
  (below \<open>2 ^ 32\<close>) is a double.
\<close>

definition avgRating :: "review list \<Rightarrow> double" where
  "avgRating reviews =
     (if length reviews = 0 then Finite False 0
      else fdiv (foldl (\<lambda>sum r. fadd sum (rv_rating r)) (Finite False 0) reviews)
             (Finite False (real (length reviews))))"

definition openSpotDetails :: "backend \<Rightarrow> spot \<Rightarrow> state \<Rightarrow> query list \<times> state" where
  "openSpotDetails be spot s =
     (let s1 = s\<lparr>selectedSpot := Some spot\<rparr>;
          s2 = s1\<lparr>detailsOpen := True\<rparr>;
          s3 = s2\<lparr>spotReviews := []\<rparr>;
          s4 = s3\<lparr>newReviewRating := 0\<rparr>;
          s5 = s4\<lparr>newReviewComment := []\<rparr>
      in loadReviews be (sp_id spot) s5)"

definition addReviewForSelectedSpot :: "backend \<Rightarrow> state \<Rightarrow> query list \<times> state" where
  "addReviewForSelectedSpot be s =
     (case selectedSpot s of
        None \<Rightarrow> ([], s)
      | Some sel \<Rightarrow>
         let s1 = s\<lparr>error := None\<rparr>
         in if newReviewRating s \<le> 0
            then ([], s1\<lparr>error := Some (js ''Please choose a rating.'')\<rparr>)
            else
              let q = review_insert_query (sp_id sel) (newReviewRating s);
                  r = be_write be q
              in case reply_error r of
                   Some e \<Rightarrow> ([q], s1\<lparr>error := Some (message e)\<rparr>)
                 | None \<Rightarrow>
                    let s2 = s1\<lparr>newReviewRating := 0\<rparr>;
                        s3 = s2\<lparr>newReviewComment := []\<rparr>;
                        (qs, s4) = loadReviews be (sp_id sel) s3
                    in (q # qs, s4))"

section \<open>The rating control\<close>

text \<open>
  \<open>Stars\<close> renders one pressable for each \<open>n\<close> of \<open>[1, 2, 3, 4, 5]\<close>, whose press
  calls \<open>onChange(n)\<close>: the component is the list of its press handlers. Pressing the
  \<open>i\<close>-th pressable runs the \<open>i\<close>-th handler; there is nothing to press beyond the
  last.
\<close>

definition Stars :: "(number \<Rightarrow> state \<Rightarrow> state) \<Rightarrow> (state \<Rightarrow> state) list" where
  "Stars onChange = map (\<lambda>n. onChange n) [1, 2, 3, 4, 5]"

definition press :: "(state \<Rightarrow> state) list \<Rightarrow> nat \<Rightarrow> state \<Rightarrow> state" where
  "press hs i s = (if i < length hs then (hs ! i) s else s)"

definition setSpotRating :: "number \<Rightarrow> state \<Rightarrow> state" where
  "setSpotRating v s = s\<lparr>spotRating := v\<rparr>"

definition setNewReviewRating :: "number \<Rightarrow> state \<Rightarrow> state" where
  "setNewReviewRating v s = s\<lparr>newReviewRating := v\<rparr>"

section \<open>The screen as a transition system\<close>

definition onLongPress :: "number \<Rightarrow> number \<Rightarrow> state \<Rightarrow> state" where
  "onLongPress la lo s =
     (let s1 = s\<lparr>pendingCoord := Some (la, lo)\<rparr>;
          s2 = s1\<lparr>spotName := []\<rparr>;
          s3 = s2\<lparr>spotDesc := []\<rparr>;
          s4 = s3\<lparr>createOpen := True\<rparr>
      in s4\<lparr>spotRating := 0\<rparr>)"

text \<open>
  The effect run at mount that asks for the device position: nothing on the web, the
  message when permission is denied, the region around the position otherwise.
\<close>

datatype located = OnWeb | Denied | Position number number

definition locate :: "located \<Rightarrow> state \<Rightarrow> state" where
  "locate l s =
     (case l of
        OnWeb \<Rightarrow> s
      | Denied \<Rightarrow> s\<lparr>error := Some (js ''Location permission denied.'')\<rparr>
      | Position la lo \<Rightarrow>
         s\<lparr>error := None,
           region := \<lparr>latitude = la, longitude = lo, latitudeDelta = 0.08,
             longitudeDelta = 0.08\<rparr>\<rparr>)"

text \<open>
  What the user and the environment can do to the screen. \<open>PressMarker i\<close> presses the
  marker of the \<open>i\<close>-th spot of the list; \<open>PressDelete i\<close> is the Delete button of the
  alert raised by \<open>confirmDelete\<close> for a spot of id \<open>i\<close>. The events are not
  restricted to the moments when their control is on screen, so the system has every
  run of the screen and more.
\<close>

datatype event =
  Mount
| Located located
| RegionChange region
| LongPress number number
| ChangeSpotName jsstring
| ChangeSpotDesc jsstring
| PressSpotStar nat
| PressCreate
| CloseCreate
| PressMarker nat
| PressReviewStar nat
| ChangeReviewComment jsstring
| SubmitReview
| CloseDetails
| PressDelete jsstring

definition pressCreate :: "backend \<Rightarrow> state \<Rightarrow> query list \<times> (exn + state)" where
  "pressCreate be s =
     (case pendingCoord s of
        None \<Rightarrow> ([], Inr s)
      | Some (la, lo) \<Rightarrow>
         (case createSpotAt be la lo (spotName s) (Some (spotDesc s)) (Some (spotRating s)) s of
            (qs, Inl e) \<Rightarrow> (qs, Inl e)
          | (qs, Inr s') \<Rightarrow> (qs, Inr (s'\<lparr>createOpen := False\<rparr>))))"

definition finished :: "query list \<times> state \<Rightarrow> query list \<times> (exn + state)" where
  "finished r = (fst r, Inr (snd r))"

fun step :: "backend \<Rightarrow> event \<Rightarrow> state \<Rightarrow> query list \<times> (exn + state)" where
  "step be Mount s = finished (reload be s)"
| "step be (Located l) s = finished ([], locate l s)"
| "step be (RegionChange r) s = finished ([], s\<lparr>region := r\<rparr>)"
| "step be (LongPress la lo) s = finished ([], onLongPress la lo s)"
| "step be (ChangeSpotName v) s = finished ([], s\<lparr>spotName := v\<rparr>)"
| "step be (ChangeSpotDesc v) s = finished ([], s\<lparr>spotDesc := v\<rparr>)"
| "step be (PressSpotStar i) s = finished ([], press (Stars setSpotRating) i s)"
| "step be PressCreate s = pressCreate be s"
| "step be CloseCreate s = finished ([], s\<lparr>createOpen := False\<rparr>)"
| "step be (PressMarker i) s =
     (if i < length (spots s) then finished (openSpotDetails be (spots s ! i) s) else finished ([], s))"
| "step be (PressReviewStar i) s = finished ([], press (Stars setNewReviewRating) i s)"
| "step be (ChangeReviewComment v) s = finished ([], s\<lparr>newReviewComment := v\<rparr>)"
| "step be SubmitReview s = finished (addReviewForSelectedSpot be s)"
| "step be CloseDetails s = finished ([], s\<lparr>detailsOpen := False\<rparr>)"
| "step be (PressDelete i) s = finished (deleteSpotById be i s)"

text \<open>
  A run: each event with the backend that answers it. The requests of all steps are
  collected in order; an exception ends the run.
\<close>

fun run :: "(backend \<times> event) list \<Rightarrow> state \<Rightarrow> query list \<times> (exn + state)" where
  "run [] s = ([], Inr s)"
| "run (bev # rest) s =
     (case step (fst bev) (snd bev) s of
        (qs, Inl e) \<Rightarrow> (qs, Inl e)
      | (qs, Inr s') \<Rightarrow> (qs @ fst (run rest s'), snd (run rest s')))"

text \<open>A request that inserts a review, and the rating it carries.\<close>

definition review_rating :: "query \<Rightarrow> number option" where
  "review_rating q =
     (case q_verb q of
        Some (Insert (ReviewRow spot_id rating)) \<Rightarrow> Some rating
      | _ \<Rightarrow> None)"

text \<open>The ratings the two rating controls of the screen can hold.\<close>

definition star_or_zero :: "number \<Rightarrow> bool" where
  "star_or_zero v = (v \<in> {0, 1, 2, 3, 4, 5})"

definition ratings_in_range :: "state \<Rightarrow> bool" where
  "ratings_in_range s = (star_or_zero (spotRating s) \<and> star_or_zero (newReviewRating s))"

section \<open>Nearby places: the normalisation of the Overpass response\<close>

text \<open>
  Reading a property: of \<open>undefined\<close> or \<open>null\<close> it raises a TypeError; of an object it
  is the member, or \<open>undefined\<close>; a boolean, a number, a string and an array have none of
  the properties the source reads (\<open>lat\<close>, \<open>lon\<close>, \<open>center\<close>, \<open>tags\<close>, \<open>name\<close>,
  \<open>leisure\<close>, \<open>type\<close>, \<open>id\<close>, \<open>elements\<close>).
\<close>

definition nullish_val :: "jsval \<Rightarrow> bool" where
  "nullish_val v = (v = Undefined \<or> v = Null)"

fun get_member :: "jsval \<Rightarrow> jsstring \<Rightarrow> jsval" where
  "get_member (Obj kvs) k = (case map_of (rev kvs) k of None \<Rightarrow> Undefined | Some v \<Rightarrow> v)"
| "get_member v k = Undefined"

definition read_prop :: "jsval \<Rightarrow> jsstring \<Rightarrow> exn + jsval" where
  "read_prop v k = (if nullish_val v then Inl TypeError else Inr (get_member v k))"

text \<open>\<open>typeof v === "number"\<close>.\<close>

fun is_number :: "jsval \<Rightarrow> bool" where
  "is_number (Num a) = True"
| "is_number v = False"

text \<open>\<open>v?.k\<close> and \<open>a ?? b\<close>.\<close>

definition opt_prop :: "jsval \<Rightarrow> jsstring \<Rightarrow> jsval" where
  "opt_prop v k = (if nullish_val v then Undefined else get_member v k)"

definition coalesce :: "jsval \<Rightarrow> jsval \<Rightarrow> jsval" where
  "coalesce a b = (if nullish_val a then b else a)"

text \<open>
  The conversion of a value to text in a template literal (\<open>ToString\<close>). The text of
  a number is left to a parameter, \<open>numStr\<close>. An array is the texts of its elements
  joined by commas, \<open>undefined\<close> and \<open>null\<close> giving the empty text. An object parsed
  from JSON is \<open>[object Object]\<close>, unless it has a member \<open>toString\<close> of its own: that
  member is not callable, the inherited \<open>valueOf\<close> returns the object, and the
  conversion raises a TypeError.
\<close>

fun join_exn :: "(exn + jsstring) list \<Rightarrow> exn + jsstring" where
  "join_exn [] = Inr []"
| "join_exn [r] = r"
| "join_exn (r # rs) =
     (case r of
        Inl e \<Rightarrow> Inl e
      | Inr s \<Rightarrow> (case join_exn rs of Inl e \<Rightarrow> Inl e | Inr t \<Rightarrow> Inr (s @ js '','' @ t)))"

fun toStr :: "(number \<Rightarrow> jsstring) \<Rightarrow> jsval \<Rightarrow> exn + jsstring" where
  "toStr numStr Undefined = Inr (js ''undefined'')"
| "toStr numStr Null = Inr (js ''null'')"
| "toStr numStr (Bool b) = Inr (if b then js ''true'' else js ''false'')"
| "toStr numStr (Num a) = Inr (numStr a)"
| "toStr numStr (Str s) = Inr s"
| "toStr numStr (Arr xs) =
     join_exn (map (\<lambda>x. if nullish_val x then Inr [] else toStr numStr x) xs)"
| "toStr numStr (Obj kvs) =
     (if js ''toString'' \<in> fst ` set kvs then Inl TypeError
      else Inr (js ''[object Object]''))"

text \<open>
  The callback of \<open>.map\<close> over the elements. \<open>el.lat\<close> raises on a \<open>null\<close> element;
  every later read is of \<open>el\<close> again or guarded by \<open>?.\<close>. The element is kept when
  \<open>pLat\<close> and \<open>pLng\<close> are both numbers (the \<open>typeof\<close> test), and mapped to \<open>null\<close>
  otherwise. The template literal converts \<open>el.type\<close>, then \<open>el.id\<close>, to text, and
  either conversion can raise.
\<close>

definition normalize_el :: "(number \<Rightarrow> jsstring) \<Rightarrow> jsval \<Rightarrow> exn + place option" where
  "normalize_el numStr el =
     (case read_prop el (js ''lat'') of
        Inl e \<Rightarrow> Inl e
      | Inr direct_lat \<Rightarrow>
         let pLat = coalesce direct_lat (opt_prop (get_member el (js ''center'')) (js ''lat''));
             pLng = coalesce (get_member el (js ''lon''))
                      (opt_prop (get_member el (js ''center'')) (js ''lon''))
         in case (pLat, pLng) of
              (Num la, Num lo) \<Rightarrow>
                let tags = get_member el (js ''tags'');
                    name = coalesce (opt_prop tags (js ''name''))
                             (if opt_prop tags (js ''leisure'') = Str (js ''skate_park'')
                              then Str (js ''Skate park'') else Str (js ''Skate shop''))
                in case toStr numStr (get_member el (js ''type'')) of
                     Inl e \<Rightarrow> Inl e
                   | Inr type_text \<Rightarrow>
                      (case toStr numStr (get_member el (js ''id'')) of
                         Inl e \<Rightarrow> Inl e
                       | Inr id_text \<Rightarrow>
                          Inr (Some \<lparr>pl_id = type_text @ js ''-'' @ id_text,
                                 pl_name = name, pl_lat = la, pl_lng = lo,
                                 pl_tags = coalesce tags (Obj [])\<rparr>))
            | _ \<Rightarrow> Inr None)"

text \<open>\<open>xs.map(f)\<close> stops at the first exception; \<open>.filter(Boolean)\<close> drops \<open>null\<close>.\<close>

fun map_exn :: "('a \<Rightarrow> exn + 'b) \<Rightarrow> 'a list \<Rightarrow> exn + 'b list" where
  "map_exn f [] = Inr []"
| "map_exn f (x # xs) =
     (case f x of
        Inl e \<Rightarrow> Inl e
      | Inr y \<Rightarrow> (case map_exn f xs of Inl e \<Rightarrow> Inl e | Inr ys \<Rightarrow> Inr (y # ys)))"

fun filter_Boolean :: "'a option list \<Rightarrow> 'a list" where
  "filter_Boolean [] = []"
| "filter_Boolean (None # xs) = filter_Boolean xs"
| "filter_Boolean (Some x # xs) = x # filter_Boolean xs"

text \<open>
  \<open>(json.elements ?? []).map(...).filter(Boolean)\<close>: a value that is not an array has
  no \<open>map\<close> to call.
\<close>

definition normalized :: "(number \<Rightarrow> jsstring) \<Rightarrow> jsval \<Rightarrow> exn + place list" where
  "normalized numStr json =
     (case read_prop json (js ''elements'') of
        Inl e \<Rightarrow> Inl e
      | Inr v \<Rightarrow>
         (case coalesce v (Arr []) of
            Arr els \<Rightarrow>
              (case map_exn (normalize_el numStr) els of
                 Inl e \<Rightarrow> Inl e
               | Inr ps \<Rightarrow> Inr (filter_Boolean ps))
          | _ \<Rightarrow> Inl TypeError))"

text \<open>
  An element as the Overpass API returns it for \<open>out center tags\<close>: an object (here:
  anything but \<open>null\<close>) whose \<open>type\<close> and \<open>id\<close> are a string and a number (here:
  not an array or an object), and whose own \<open>lat\<close> and \<open>lon\<close> and centre's \<open>lat\<close> and
  \<open>lon\<close> are numbers where they are there at all.
\<close>

fun primitive :: "jsval \<Rightarrow> bool" where
  "primitive (Arr xs) = False"
| "primitive (Obj kvs) = False"
| "primitive v = True"

definition number_or_missing :: "jsval \<Rightarrow> bool" where
  "number_or_missing v = (is_number v \<or> nullish_val v)"

definition overpass_element :: "jsval \<Rightarrow> bool" where
  "overpass_element el =
     (\<not> nullish_val el
      \<and> primitive (get_member el (js ''type'')) \<and> primitive (get_member el (js ''id''))
      \<and> number_or_missing (get_member el (js ''lat''))
      \<and> number_or_missing (get_member el (js ''lon''))
      \<and> number_or_missing (opt_prop (get_member el (js ''center'')) (js ''lat''))
      \<and> number_or_missing (opt_prop (get_member el (js ''center'')) (js ''lon'')))"

text \<open>
  Two readings of "the element has a numeric coordinate \<open>k\<close>" (\<open>k\<close> is \<open>lat\<close> or
  \<open>lon\<close>). The first follows the words of the specification: the element's own value
  or its centre's is a number. The second is what \<open>??\<close> and \<open>typeof\<close> test: the own
  value is a number, or it is \<open>undefined\<close> or \<open>null\<close> and the centre's is a number.
\<close>

definition spec_numeric_coordinate :: "jsval \<Rightarrow> jsstring \<Rightarrow> bool" where
  "spec_numeric_coordinate el k =
     (is_number (get_member el k) \<or> is_number (opt_prop (get_member el (js ''center'')) k))"


section \<open>Sample data\<close>

definition ok_reply :: "'a \<Rightarrow> 'a reply" where
  "ok_reply d = \<lparr>reply_data = Some d, reply_error = None\<rparr>"

definition empty_reply :: "'a reply" where
  "empty_reply = \<lparr>reply_data = None, reply_error = None\<rparr>"

definition error_reply :: "jsstring \<Rightarrow> 'a reply" where
  "error_reply m = \<lparr>reply_data = None, reply_error = Some (PgError m)\<rparr>"

definition ledge :: spot where
  "ledge = \<lparr>sp_id = js ''s1'', sp_name = js ''Ledge'', sp_description = None,
     sp_lat = 42, sp_lng = - 85, sp_created_at = js ''2024-01-01''\<rparr>"

definition stairs :: spot where
  "stairs = \<lparr>sp_id = js ''s2'', sp_name = js ''Stairs'', sp_description = Some (js ''ten''),
     sp_lat = 43, sp_lng = - 86, sp_created_at = js ''2024-01-02''\<rparr>"

definition rated :: "nat \<Rightarrow> review" where
  "rated n = \<lparr>rv_id = js ''r'', rv_spot_id = js ''s1'', rv_rating = Finite False (real n),
     rv_created_at = js ''2024-01-03''\<rparr>"

text \<open>
  Elements of an Overpass response: a node with its own coordinates, a way with a
  centre, a relation with neither, and an element whose own latitude is a string while
  its centre has numbers.
\<close>

definition node_el :: jsval where
  "node_el = Obj [(js ''type'', Str (js ''node'')), (js ''id'', Num 7), (js ''lat'', Num 42.9),
     (js ''lon'', Num (- 85.6)), (js ''tags'', Obj [(js ''name'', Str (js ''Shop''))])]"



definition odd_el :: jsval where
  "odd_el = Obj [(js ''type'', Str (js ''node'')), (js ''id'', Num 10),
     (js ''lat'', Str (js ''42.96'')), (js ''lon'', Num (- 85.67)),
     (js ''center'', Obj [(js ''lat'', Num 42.96), (js ''lon'', Num (- 85.67))])]"


text \<open>An element whose \<open>type\<close> cannot be converted to text.\<close>

definition untexted_el :: jsval where
  "untexted_el = Obj [(js ''type'', Obj [(js ''toString'', Num 1)]), (js ''id'', Num 1),
     (js ''lat'', Num 1), (js ''lon'', Num 2)]"

text \<open>A backend that accepts every request, and one that refuses every request.\<close>

definition be_ok :: backend where
  "be_ok = \<lparr>be_select_spots = (\<lambda>q. ok_reply [stairs]),
     be_single_spot = (\<lambda>q. ok_reply ledge),
     be_select_reviews = (\<lambda>q. ok_reply []),
     be_write = (\<lambda>q. empty_reply)\<rparr>"

definition be_down :: "jsstring \<Rightarrow> backend" where
  "be_down m = \<lparr>be_select_spots = (\<lambda>q. error_reply m),
     be_single_spot = (\<lambda>q. error_reply m),
     be_select_reviews = (\<lambda>q. error_reply m),
     be_write = (\<lambda>q. error_reply m)\<rparr>"

text \<open>A backend that returns the inserted spot and refuses every other write.\<close>

definition be_no_review :: "jsstring \<Rightarrow> backend" where
  "be_no_review m = be_ok\<lparr>be_write := (\<lambda>q. error_reply m)\<rparr>"

section \<open>Properties\<close>

subsection \<open>Average rating\<close>

lemma powr_powi: "(2::real) powr (of_int e) = 2 powi e"
  by (simp only: powr_real_of_int' [of 2, simplified, symmetric])

lemma floor_log2_eqI:
  assumes "2 powi e \<le> x" "x < 2 powi (e + 1)"
  shows "\<lfloor>log 2 x\<rfloor> = e"
proof -
  have x: "x > 0" using assms(1) by (smt (verit) zero_less_power_int)
  from assms have "2 powr (of_int e) \<le> x" "x < 2 powr (of_int (e + 1))"
    by (simp_all only: powr_powi)
  then show ?thesis
    using x by (simp add: floor_log_eq_powr_iff)
qed

lemma floor_log2_bounds:
  assumes "x > 0"
  shows "2 powi \<lfloor>log 2 x\<rfloor> \<le> x" "x < 2 powi (\<lfloor>log 2 x\<rfloor> + 1)"
proof -
  have "2 powr (of_int \<lfloor>log 2 x\<rfloor>) \<le> x \<and> x < 2 powr (of_int (\<lfloor>log 2 x\<rfloor> + 1))"
    using assms floor_log_eq_powr_iff [of x 2 "\<lfloor>log 2 x\<rfloor>"] by simp
  then show "2 powi \<lfloor>log 2 x\<rfloor> \<le> x" "x < 2 powi (\<lfloor>log 2 x\<rfloor> + 1)"
    by (simp_all only: powr_powi)
qed

lemma round_half_even_of_int: "round_half_even (of_int z) = z"
  by (simp add: round_half_even_def)

lemma round_half_even_error: "\<bar>of_int (round_half_even y) - y\<bar> \<le> 1 / 2"
  unfolding round_half_even_def Let_def
  by (auto simp: abs_if) linarith+

lemma quantum_pos: "quantum x > 0"
  by (simp add: quantum_def)

lemma powi_mono2: "a \<le> b \<Longrightarrow> (2::real) powi a \<le> 2 powi b"
  by (rule power_int_increasing) simp_all

lemma powi_less2: "(2::real) powi a < 2 powi b \<Longrightarrow> a < b"
  by (smt (verit) powi_mono2)

lemma rd_exact:
  assumes m: "m < 2 ^ 53" and e: "- 1074 \<le> e" and x: "x = real m * 2 powi e"
  shows "round_double x = x"
proof (cases "m = 0")
  case True
  with x show ?thesis by (simp add: round_double_def)
next
  case False
  then have xpos: "x > 0" using x by simp
  define L where "L = \<lfloor>log 2 x\<rfloor>"
  define E where "E = max (L - 52) (- 1074)"
  have "2 powi L \<le> x" unfolding L_def using xpos by (rule floor_log2_bounds)
  also have "x < 2 ^ 53 * 2 powi e"
    using m x by simp
  also have "\<dots> = 2 powi (53 + e)"
    by (simp add: power_int_add)
  finally have "L < 53 + e" by (rule powi_less2)
  with e have Ee: "E \<le> e" by (simp add: E_def)
  have q: "quantum x = 2 powi E"
    by (simp add: quantum_def E_def L_def)
  have "x / 2 powi E = real m * 2 powi (e - E)"
    using x by (simp add: power_int_diff)
  also have "\<dots> = of_int (int m * 2 ^ nat (e - E))"
    using Ee by (simp add: power_int_def)
  finally have "round_half_even (x / quantum x) = int m * 2 ^ nat (e - E)"
    by (simp only: q round_half_even_of_int)
  then have "round_double x = of_int (int m * 2 ^ nat (e - E)) * 2 powi E"
    using xpos by (simp add: round_double_def q)
  also have "\<dots> = real m * (2 powi (e - E) * 2 powi E)"
    using Ee by (simp add: power_int_def)
  also have "\<dots> = real m * 2 powi e"
    by (simp add: power_int_add [symmetric])
  finally show ?thesis using x by simp
qed

lemma rd_nat: "k < 2 ^ 53 \<Longrightarrow> round_double (real k) = real k"
  using rd_exact [of k 0 "real k"] by simp

lemma abs_scale:
  fixes q r x :: real
  assumes "q > 0"
  shows "\<bar>r * q - x\<bar> = \<bar>r - x / q\<bar> * q"
proof -
  have "r * q - x = (r - x / q) * q"
    using assms by (simp add: field_simps)
  then have "\<bar>r * q - x\<bar> = \<bar>r - x / q\<bar> * \<bar>q\<bar>"
    by (simp only: abs_mult)
  with assms show ?thesis by simp
qed

lemma rd_error:
  assumes "2 powi (- 1022) \<le> x"
  shows "\<bar>round_double x - x\<bar> \<le> x / 2 ^ 53"
proof -
  have p: "(0::real) < 2 powi (- 1022)" by (rule zero_less_power_int) simp
  from p assms have xpos: "x > 0" by (rule less_le_trans)
  define L where "L = \<lfloor>log 2 x\<rfloor>"
  have "x < 2 powi (L + 1)"
    unfolding L_def using xpos by (rule floor_log2_bounds)
  with assms have "(2::real) powi (- 1022) < 2 powi (L + 1)"
    by (rule le_less_trans)
  then have "- 1022 < L + 1" by (rule powi_less2)
  then have "max (L - 52) (- 1074) = L - 52" by simp
  then have q: "quantum x = 2 powi (L - 52)"
    by (simp only: quantum_def L_def [symmetric])
  have "quantum x * 2 ^ 52 = 2 powi L"
    by (simp add: q power_int_diff)
  also have "\<dots> \<le> x" unfolding L_def using xpos by (rule floor_log2_bounds)
  finally have qx: "quantum x \<le> x / 2 ^ 52"
    by (simp add: field_simps)
  have "\<bar>round_double x - x\<bar> = \<bar>of_int (round_half_even (x / quantum x)) - x / quantum x\<bar> * quantum x"
    using xpos abs_scale [OF quantum_pos [of x]]
    by (simp add: round_double_def)
  also have "\<dots> \<le> 1 / 2 * quantum x"
    using round_half_even_error [of "x / quantum x"] quantum_pos [of x]
    by (intro mult_right_mono) simp_all
  also have "\<dots> \<le> 1 / 2 * (x / 2 ^ 52)"
    using qx by simp
  finally show ?thesis by simp
qed

lemma finish_small:
  assumes "round_double x = y" and "y < 2 ^ 1024"
  shows "finish s x = Finite s y"
  using assms by (simp add: finish_def overflow_threshold_def)

lemma finish_nat: "k < 2 ^ 53 \<Longrightarrow> finish s (real k) = Finite s (real k)"
proof (rule finish_small)
  assume k: "k < 2 ^ 53"
  then show "round_double (real k) = real k" by (rule rd_nat)
  from k have "real k < 2 ^ 53"
    by (metis of_nat_less_iff of_nat_numeral of_nat_power)
  also have "(2::real) ^ 53 < 2 ^ 1024"
    by (rule power_strict_increasing) simp_all
  finally show "real k < 2 ^ 1024" .
qed

lemma fadd_nat:
  assumes "a + k < 2 ^ 53"
  shows "fadd (Finite False (real a)) (Finite False (real k)) = Finite False (real (a + k))"
proof (cases "a + k = 0")
  case True
  then show ?thesis by (simp add: with_sign_def)
next
  case False
  then have "0 < a + k" by simp
  then have "(0::real) < real (a + k)" by (simp only: of_nat_0_less_iff)
  then have pos: "0 < real a + real k" by (simp only: of_nat_add)
  then have "real a + real k \<noteq> 0" "\<not> real a + real k < 0"
    "\<bar>real a + real k\<bar> = real (a + k)"
    by linarith+
  then show ?thesis
    using finish_nat [OF assms, of False] by (simp add: with_sign_def Let_def)
qed

lemma foldl_fadd_nat:
  assumes "\<forall>r \<in> set rs. \<exists>k \<le> 5. rv_rating r = Finite False (real k)"
    and "a + 5 * length rs < 2 ^ 53"
  shows "\<exists>S. foldl (\<lambda>sum r. fadd sum (rv_rating r)) (Finite False (real a)) rs = Finite False (real S)
    \<and> real S = real a + sum_list (map (\<lambda>r. value_of (rv_rating r)) rs)
    \<and> S \<le> a + 5 * length rs"
  using assms
proof (induction rs arbitrary: a)
  case Nil
  then show ?case by simp
next
  case (Cons r rs)
  then obtain k where k: "k \<le> 5" "rv_rating r = Finite False (real k)"
    by auto
  with Cons.prems(2) have small: "a + k < 2 ^ 53" "(a + k) + 5 * length rs < 2 ^ 53"
    by simp_all
  from Cons.prems(1) have rest: "\<forall>r \<in> set rs. \<exists>k \<le> 5. rv_rating r = Finite False (real k)"
    by simp
  from Cons.IH [OF rest small(2)] obtain S where S:
    "foldl (\<lambda>sum r. fadd sum (rv_rating r)) (Finite False (real (a + k))) rs = Finite False (real S)"
    "real S = real (a + k) + sum_list (map (\<lambda>r. value_of (rv_rating r)) rs)"
    "S \<le> (a + k) + 5 * length rs"
    by blast
  have "foldl (\<lambda>sum r. fadd sum (rv_rating r)) (Finite False (real a)) (r # rs) = Finite False (real S)"
    using S(1) k(2) fadd_nat [OF small(1)] by simp
  moreover have "real S = real a + sum_list (map (\<lambda>r. value_of (rv_rating r)) (r # rs))"
    using S(2) k(2) by (simp add: with_sign_def)
  moreover have "S \<le> a + 5 * length (r # rs)"
    using S(3) k(1) by simp
  ultimately show ?case by blast
qed

lemma rd_zero: "round_double 0 = 0"
  by (simp add: round_double_def)

lemma min_normal_le: "(2::real) powi (- 1022) \<le> 1 / 2 ^ 32"
proof -
  have "(2::real) powi (- 1022) \<le> 2 powi (- 32)"
    by (rule powi_mono2) simp
  also have "(2::real) powi (- 32) = 1 / 2 ^ 32"
    by (simp add: power_int_minus field_simps)
  finally show ?thesis .
qed

lemma avgRating_small_ratings:
  assumes ne: "rs \<noteq> []" and len: "length rs < 2 ^ 32"
    and small: "\<forall>r \<in> set rs. \<exists>k \<le> 5. rv_rating r = Finite False (real k)"
  defines "mean \<equiv> sum_list (map (\<lambda>r. value_of (rv_rating r)) rs) / real (length rs)"
  shows "avgRating rs = Finite False (round_double mean)" and "\<bar>round_double mean - mean\<bar> \<le> mean / 2 ^ 53"
proof -
  define n where "n = length rs"
  from ne have npos: "0 < n" by (simp add: n_def)
  from len have "5 * n < 5 * 2 ^ 32" by (simp add: n_def)
  also have "(5::nat) * 2 ^ 32 < 2 ^ 53" by simp
  finally have bound: "0 + 5 * length rs < 2 ^ 53" by (simp add: n_def)
  from foldl_fadd_nat [OF small bound] obtain S where
    fold: "foldl (\<lambda>sum r. fadd sum (rv_rating r)) (Finite False 0) rs = Finite False (real S)"
    and S: "real S = sum_list (map (\<lambda>r. value_of (rv_rating r)) rs)" and Sle: "S \<le> 5 * n"
    by (auto simp add: n_def)
  have mean: "mean = real S / real n"
    by (simp add: mean_def S n_def)
  have avg: "avgRating rs = finish False mean"
    using ne npos fold by (simp add: avgRating_def mean n_def)
  have le5: "mean \<le> 5"
    using Sle npos by (simp add: mean field_simps)
  have err: "\<bar>round_double mean - mean\<bar> \<le> mean / 2 ^ 53"
  proof (cases "S = 0")
    case True
    then show ?thesis by (simp add: mean rd_zero)
  next
    case False
    then have "1 \<le> real S" by simp
    moreover have "real n \<le> 2 ^ 32"
      using len by (simp add: n_def)
    ultimately have "1 / 2 ^ 32 \<le> mean"
      using npos by (simp add: mean field_simps)
    with min_normal_le have "2 powi (- 1022) \<le> mean" by (rule order_trans)
    then show ?thesis by (rule rd_error)
  qed
  then show "\<bar>round_double mean - mean\<bar> \<le> mean / 2 ^ 53" .
  have "0 \<le> mean" by (simp add: mean)
  then have "mean / 2 ^ 53 \<le> mean"
    by (simp add: divide_le_eq)
  with err have "round_double mean \<le> 2 * mean"
    by linarith
  with le5 have "round_double mean \<le> 10" by simp
  also have "(10::real) < 2 ^ 1024"
  proof -
    have "(10::real) < 2 ^ 4" by simp
    also have "(2::real) ^ 4 < 2 ^ 1024" by (rule power_strict_increasing) simp_all
    finally show ?thesis .
  qed
  finally have "round_double mean < 2 ^ 1024" .
  with avg show "avgRating rs = Finite False (round_double mean)"
    by (simp add: finish_small)
qed

lemma rd_five_thirds: "round_double (5 / 3) = 7505999378950827 / 4503599627370496"
proof -
  have "\<lfloor>log 2 (5 / 3 :: real)\<rfloor> = 0"
    by (rule floor_log2_eqI) simp_all
  then have q: "quantum (5 / 3) = 1 / 2 ^ 52"
    by (simp add: quantum_def power_int_minus)
  show ?thesis
    by (simp add: round_double_def q round_half_even_def Let_def)
qed

lemma rated_small: "\<exists>k \<le> 5. rv_rating (rated 1) = Finite False (real k)"
  "\<exists>k \<le> 5. rv_rating (rated 2) = Finite False (real k)"
  by (auto simp add: rated_def intro: exI [of _ 1] exI [of _ 2])

text \<open>
  Claim C3, as stated, fails: the quotient is rounded to a double. For ratings 1, 2
  and 2 the arithmetic mean is 5/3, and \<open>avgRating\<close> is the double
  7505999378950827 / 2 ^ 52 (printed 1.6666666666666667).
\<close>

theorem avgRating_mean_counterexample:
  "sum_list (map (\<lambda>r. value_of (rv_rating r)) [rated 1, rated 2, rated 2])
      / real (length [rated 1, rated 2, rated 2]) = 5 / 3
   \<and> avgRating [rated 1, rated 2, rated 2] = Finite False (7505999378950827 / 4503599627370496)
   \<and> (7505999378950827 / 4503599627370496 :: real) \<noteq> 5 / 3"
proof -
  have mean: "sum_list (map (\<lambda>r. value_of (rv_rating r)) [rated 1, rated 2, rated 2])
      / real (length [rated 1, rated 2, rated 2]) = 5 / 3"
    by (simp add: rated_def with_sign_def)
  have "avgRating [rated 1, rated 2, rated 2] = Finite False (round_double (5 / 3))"
    using avgRating_small_ratings(1) [of "[rated 1, rated 2, rated 2]"] rated_small
    by (simp only: mean) simp
  then have "avgRating [rated 1, rated 2, rated 2] =
      Finite False (7505999378950827 / 4503599627370496)"
    by (simp only: rd_five_thirds)
  with mean show ?thesis by simp
qed

text \<open>
  Claim C3, amended. The average rating is \<open>+0\<close> when no review is loaded. For at
  least one and fewer than \<open>2 ^ 32\<close> loaded reviews whose ratings are integers from 0 to
  5, it is the arithmetic mean (the sum of the ratings divided by their number) rounded
  to the nearest double: it differs from the mean by at most the mean times
  \<open>2 ^ - 53\<close>, and it is the mean itself when the mean is a double. For two reviews
  rated 3 and 5, in either order, it is 4.
\<close>

theorem avgRating_rounds_mean:
  "avgRating [] = Finite False 0
   \<and> (rs \<noteq> [] \<and> length rs < 2 ^ 32
        \<and> (\<forall>r \<in> set rs. \<exists>k \<le> 5. rv_rating r = Finite False (real k)) \<longrightarrow>
      avgRating rs =
        Finite False (round_double (sum_list (map (\<lambda>r. value_of (rv_rating r)) rs) / real (length rs)))
      \<and> \<bar>round_double (sum_list (map (\<lambda>r. value_of (rv_rating r)) rs) / real (length rs))
           - sum_list (map (\<lambda>r. value_of (rv_rating r)) rs) / real (length rs)\<bar>
          \<le> sum_list (map (\<lambda>r. value_of (rv_rating r)) rs) / real (length rs) / 2 ^ 53
      \<and> ((\<exists>m e. m < 2 ^ 53 \<and> - 1074 \<le> e
            \<and> sum_list (map (\<lambda>r. value_of (rv_rating r)) rs) / real (length rs) = real m * 2 powi e)
           \<longrightarrow> avgRating rs =
             Finite False (sum_list (map (\<lambda>r. value_of (rv_rating r)) rs) / real (length rs))))
   \<and> (rv_rating a = Finite False 3 \<and> rv_rating b = Finite False 5 \<longrightarrow>
        avgRating [a, b] = Finite False 4 \<and> avgRating [b, a] = Finite False 4)"
proof (intro conjI impI)
  show "avgRating [] = Finite False 0"
    by (simp add: avgRating_def)
next
  assume h: "rs \<noteq> [] \<and> length rs < 2 ^ 32
        \<and> (\<forall>r \<in> set rs. \<exists>k \<le> 5. rv_rating r = Finite False (real k))"
  then show avg: "avgRating rs =
        Finite False (round_double (sum_list (map (\<lambda>r. value_of (rv_rating r)) rs) / real (length rs)))"
    by (intro avgRating_small_ratings(1)) simp_all
  from h show "\<bar>round_double (sum_list (map (\<lambda>r. value_of (rv_rating r)) rs) / real (length rs))
           - sum_list (map (\<lambda>r. value_of (rv_rating r)) rs) / real (length rs)\<bar>
          \<le> sum_list (map (\<lambda>r. value_of (rv_rating r)) rs) / real (length rs) / 2 ^ 53"
    by (intro avgRating_small_ratings(2)) simp_all
  assume "\<exists>m e. m < 2 ^ 53 \<and> - 1074 \<le> e
            \<and> sum_list (map (\<lambda>r. value_of (rv_rating r)) rs) / real (length rs) = real m * 2 powi e"
  then have "round_double (sum_list (map (\<lambda>r. value_of (rv_rating r)) rs) / real (length rs)) =
      sum_list (map (\<lambda>r. value_of (rv_rating r)) rs) / real (length rs)"
    using rd_exact by blast
  with avg show "avgRating rs =
             Finite False (sum_list (map (\<lambda>r. value_of (rv_rating r)) rs) / real (length rs))"
    by simp
next
  assume ab: "rv_rating a = Finite False 3 \<and> rv_rating b = Finite False 5"
  have three: "fadd (Finite False 0) (Finite False 3) = Finite False 3"
    using fadd_nat [of 0 3] by simp
  have five: "fadd (Finite False 0) (Finite False 5) = Finite False 5"
    using fadd_nat [of 0 5] by simp
  have eight: "fadd (Finite False 3) (Finite False 5) = Finite False 8"
    "fadd (Finite False 5) (Finite False 3) = Finite False 8"
    using fadd_nat [of 3 5] fadd_nat [of 5 3] by simp_all
  have four: "fdiv (Finite False 8) (Finite False 2) = Finite False 4"
    using finish_nat [of 4 False] by simp
  from ab three eight four show "avgRating [a, b] = Finite False 4"
    by (simp add: avgRating_def)
  from ab five eight four show "avgRating [b, a] = Finite False 4"
    by (simp add: avgRating_def)
qed

theorem avgRating_rounds_mean_witness:
  "[rated 1, rated 2, rated 2] \<noteq> [] \<and> length [rated 1, rated 2, rated 2] < 2 ^ 32
   \<and> rv_rating (rated 1) = Finite False (real 1) \<and> rv_rating (rated 2) = Finite False (real 2)
   \<and> avgRating [rated 1, rated 2, rated 2] =
       Finite False (round_double (sum_list (map (\<lambda>r. value_of (rv_rating r)) [rated 1, rated 2, rated 2])
         / real (length [rated 1, rated 2, rated 2])))
   \<and> round_double (5 / 3) = 7505999378950827 / 4503599627370496
   \<and> rv_rating (rated 3) = Finite False 3 \<and> rv_rating (rated 5) = Finite False 5
   \<and> avgRating [rated 3, rated 5] = Finite False 4 \<and> avgRating [rated 5, rated 3] = Finite False 4"
proof -
  have r: "rv_rating (rated 1) = Finite False (real 1)" "rv_rating (rated 2) = Finite False (real 2)"
    "rv_rating (rated 3) = Finite False 3" "rv_rating (rated 5) = Finite False 5"
    by (simp_all add: rated_def)
  have h: "[rated 1, rated 2, rated 2] \<noteq> []" "length [rated 1, rated 2, rated 2] < 2 ^ 32"
    "\<forall>r \<in> set [rated 1, rated 2, rated 2]. \<exists>k \<le> 5. rv_rating r = Finite False (real k)"
    using rated_small by simp_all
  note main = avgRating_rounds_mean [of "[rated 1, rated 2, rated 2]" "rated 3" "rated 5"]
  from main h have a: "avgRating [rated 1, rated 2, rated 2] =
       Finite False (round_double (sum_list (map (\<lambda>r. value_of (rv_rating r)) [rated 1, rated 2, rated 2])
         / real (length [rated 1, rated 2, rated 2])))"
    by blast
  from main r(3,4) have b: "avgRating [rated 3, rated 5] = Finite False 4"
    "avgRating [rated 5, rated 3] = Finite False 4"
    by blast+
  from h(1,2) r a b rd_five_thirds show ?thesis
    by (intro conjI)
qed

subsection \<open>Creating a spot\<close>

text \<open>
  Claim C1. When the name is not blank, the spot insert answers with a row and no
  error, \<open>initialRating\<close> is positive and the review insert answers with an error, then
  \<open>createSpotAt\<close> ends with the review error's message in \<open>error\<close> and with the new
  spot at the head of \<open>spots\<close>; nothing else of the state has changed.
\<close>

theorem createSpotAt_review_error_keeps_spot:
  assumes name: "trim name \<noteq> []"
    and ok: "reply_error (be_single_spot be (spot_insert_query lat lng (trim name) description)) = None"
    and row: "reply_data (be_single_spot be (spot_insert_query lat lng (trim name) description)) = Some spot"
    and rating: "initialRating = Some r" "r > 0"
    and failed: "reply_error (be_write be (review_insert_query (sp_id spot) r)) = Some reviewErr"
  shows "createSpotAt be lat lng name description initialRating s =
           ([spot_insert_query lat lng (trim name) description,
             review_insert_query (sp_id spot) r],
            Inr (s\<lparr>error := Some (message reviewErr), spots := spot # spots s\<rparr>))"
  using assms by (simp add: createSpotAt_def Let_def nullish_def)

theorem createSpotAt_review_error_keeps_spot_witness:
  "trim (js '' Ledge '') \<noteq> []
   \<and> createSpotAt (be_no_review (js ''denied'')) 42 (- 85) (js '' Ledge '') None (Some 4) initial =
       ([spot_insert_query 42 (- 85) (js ''Ledge'') None, review_insert_query (js ''s1'') 4],
        Inr (initial\<lparr>error := Some (js ''denied''), spots := [ledge]\<rparr>))"
  using createSpotAt_review_error_keeps_spot [of "js '' Ledge ''" "be_no_review (js ''denied'')"
      42 "- 85" None ledge "Some 4" 4 "PgError (js ''denied'')" initial]
  by (simp add: trim_def js_def is_ws_def be_no_review_def be_ok_def ok_reply_def error_reply_def
      ledge_def initial_def)

lemma spot_insert_query_verb:
  "q_verb (spot_insert_query lat lng n d) =
     Some (Insert (SpotRow n (or_null (trim (nullish d []))) lat lng))"
  "q_from (spot_insert_query lat lng n d) = ''spots''"
  by (simp_all add: spot_insert_query_def single_def select_returning_def insert_row_def
      from_table_def)

text \<open>
  Claim C2. In both screens, a name whose trimmed form is empty makes \<open>createSpotAt\<close>
  issue no request and change nothing but \<open>error\<close>, which becomes \<open>Name is required\<close>
  (so \<open>spots\<close> is as before). A name whose trimmed form is not empty makes it issue,
  first, the insert into \<open>spots\<close> of a row with the trimmed name and with \<open>lat\<close> and
  \<open>lng\<close> as they were passed.
\<close>

theorem createSpotAt_name_required:
  "(trim name = [] \<longrightarrow>
      createSpotAt be lat lng name description initialRating s =
        ([], Inr (s\<lparr>error := Some (js ''Name is required'')\<rparr>))
      \<and> createSpotAt_v0 be lat lng name description s =
        ([], s\<lparr>error := Some (js ''Name is required'')\<rparr>)
      \<and> spots (s\<lparr>error := Some (js ''Name is required'')\<rparr>) = spots s)
   \<and> (trim name \<noteq> [] \<longrightarrow>
      (\<exists>rest. fst (createSpotAt be lat lng name description initialRating s) =
         spot_insert_query lat lng (trim name) description # rest)
      \<and> fst (createSpotAt_v0 be lat lng name description s) =
         [spot_insert_query lat lng (trim name) description]
      \<and> (\<exists>d. q_verb (spot_insert_query lat lng (trim name) description) =
            Some (Insert (SpotRow (trim name) d lat lng)))
      \<and> q_from (spot_insert_query lat lng (trim name) description) = ''spots'')"
proof (intro conjI impI)
  assume "trim name = []"
  then show "createSpotAt be lat lng name description initialRating s =
        ([], Inr (s\<lparr>error := Some (js ''Name is required'')\<rparr>))"
    by (simp add: createSpotAt_def)
next
  assume "trim name = []"
  then show "createSpotAt_v0 be lat lng name description s =
        ([], s\<lparr>error := Some (js ''Name is required'')\<rparr>)"
    by (simp add: createSpotAt_v0_def)
next
  show "spots (s\<lparr>error := Some (js ''Name is required'')\<rparr>) = spots s"
    by simp
next
  assume "trim name \<noteq> []"
  then show "\<exists>rest. fst (createSpotAt be lat lng name description initialRating s) =
         spot_insert_query lat lng (trim name) description # rest"
    by (simp add: createSpotAt_def Let_def split: option.split)
next
  assume "trim name \<noteq> []"
  then show "fst (createSpotAt_v0 be lat lng name description s) =
         [spot_insert_query lat lng (trim name) description]"
    by (simp add: createSpotAt_v0_def Let_def split: option.split)
next
  show "\<exists>d. q_verb (spot_insert_query lat lng (trim name) description) =
            Some (Insert (SpotRow (trim name) d lat lng))"
    by (simp add: spot_insert_query_verb)
next
  show "q_from (spot_insert_query lat lng (trim name) description) = ''spots''"
    by (simp add: spot_insert_query_verb)
qed

theorem createSpotAt_name_required_witness:
  "trim (js ''  '') = []
   \<and> createSpotAt be_ok 42 (- 85) (js ''  '') None None (initial\<lparr>spots := [stairs]\<rparr>) =
        ([], Inr (initial\<lparr>spots := [stairs], error := Some (js ''Name is required'')\<rparr>))
   \<and> trim (js '' Ledge '') \<noteq> []
   \<and> fst (createSpotAt_v0 be_ok 42 (- 85) (js '' Ledge '') None initial) =
        [spot_insert_query 42 (- 85) (js ''Ledge'') None]"
  using createSpotAt_name_required [of "js ''  ''" be_ok 42 "- 85" None None
      "initial\<lparr>spots := [stairs]\<rparr>"]
    createSpotAt_name_required [of "js '' Ledge ''" be_ok 42 "- 85" None None initial]
  by (simp add: trim_def js_def is_ws_def)

subsection \<open>Deleting a spot\<close>

text \<open>
  Claim C5. After a delete the backend accepted, \<open>spots\<close> is the list before without
  the spots of that id: none of that id is left, and the spots of other ids are all
  there, in their order. When the selected spot has that id, the detail view is closed,
  no spot is selected and no review is loaded; otherwise these three are as before.
\<close>

theorem deleteSpotById_removes_spot:
  assumes ok: "reply_error (be_write be (spot_delete_query i)) = None"
  shows "spots (snd (deleteSpotById be i s)) = filter (\<lambda>sp. sp_id sp \<noteq> i) (spots s)
    \<and> (\<forall>sp \<in> set (spots (snd (deleteSpotById be i s))). sp_id sp \<noteq> i)
    \<and> filter (\<lambda>sp. sp_id sp \<noteq> i) (spots (snd (deleteSpotById be i s)))
        = filter (\<lambda>sp. sp_id sp \<noteq> i) (spots s)
    \<and> subseq (spots (snd (deleteSpotById be i s))) (spots s)
    \<and> ((\<exists>sel. selectedSpot s = Some sel \<and> sp_id sel = i) \<longrightarrow>
          detailsOpen (snd (deleteSpotById be i s)) = False
          \<and> selectedSpot (snd (deleteSpotById be i s)) = None
          \<and> spotReviews (snd (deleteSpotById be i s)) = [])
    \<and> (\<not> (\<exists>sel. selectedSpot s = Some sel \<and> sp_id sel = i) \<longrightarrow>
          detailsOpen (snd (deleteSpotById be i s)) = detailsOpen s
          \<and> selectedSpot (snd (deleteSpotById be i s)) = selectedSpot s
          \<and> spotReviews (snd (deleteSpotById be i s)) = spotReviews s)"
proof -
  have list: "spots (snd (deleteSpotById be i s)) = filter (\<lambda>sp. sp_id sp \<noteq> i) (spots s)"
    using ok by (simp add: deleteSpotById_def Let_def)
  have sel: "detailsOpen (snd (deleteSpotById be i s)) = False
          \<and> selectedSpot (snd (deleteSpotById be i s)) = None
          \<and> spotReviews (snd (deleteSpotById be i s)) = []"
    if "\<exists>sel. selectedSpot s = Some sel \<and> sp_id sel = i"
    using ok that by (auto simp add: deleteSpotById_def Let_def)
  have other: "detailsOpen (snd (deleteSpotById be i s)) = detailsOpen s
          \<and> selectedSpot (snd (deleteSpotById be i s)) = selectedSpot s
          \<and> spotReviews (snd (deleteSpotById be i s)) = spotReviews s"
    if "\<not> (\<exists>sel. selectedSpot s = Some sel \<and> sp_id sel = i)"
    using ok that by (cases "selectedSpot s") (simp_all add: deleteSpotById_def Let_def)
  from list sel other show ?thesis
    by (simp add: subseq_filter_left)
qed

theorem deleteSpotById_removes_spot_witness:
  "reply_error (be_write be_ok (spot_delete_query (js ''s1''))) = None
   \<and> spots (snd (deleteSpotById be_ok (js ''s1'')
        (initial\<lparr>spots := [stairs, ledge, stairs], selectedSpot := Some ledge,
           detailsOpen := True, spotReviews := [rated 3]\<rparr>))) = [stairs, stairs]
   \<and> selectedSpot (snd (deleteSpotById be_ok (js ''s1'')
        (initial\<lparr>spots := [stairs, ledge, stairs], selectedSpot := Some ledge,
           detailsOpen := True, spotReviews := [rated 3]\<rparr>))) = None
   \<and> \<not> detailsOpen (snd (deleteSpotById be_ok (js ''s1'')
        (initial\<lparr>spots := [stairs, ledge, stairs], selectedSpot := Some ledge,
           detailsOpen := True, spotReviews := [rated 3]\<rparr>)))
   \<and> spotReviews (snd (deleteSpotById be_ok (js ''s1'')
        (initial\<lparr>spots := [stairs, ledge, stairs], selectedSpot := Some ledge,
           detailsOpen := True, spotReviews := [rated 3]\<rparr>))) = []"
  using deleteSpotById_removes_spot [of be_ok "js ''s1''"
      "initial\<lparr>spots := [stairs, ledge, stairs], selectedSpot := Some ledge,
           detailsOpen := True, spotReviews := [rated 3]\<rparr>"]
  by (simp add: be_ok_def empty_reply_def ledge_def stairs_def js_def)

subsection \<open>The stored description\<close>

lemma js_Nil_iff: "js s = [] \<longleftrightarrow> s = []"
  by (simp add: js_def)

lemma trim_ends:
  assumes "trim t \<noteq> []"
  shows "\<not> is_ws (hd (trim t))" and "\<not> is_ws (last (trim t))"
proof -
  define zs where "zs = rev (dropWhile is_ws t)"
  define ys where "ys = dropWhile is_ws zs"
  have tr: "trim t = rev ys"
    by (simp add: trim_def ys_def zs_def)
  with assms have ys: "ys \<noteq> []" by simp
  then have "\<not> is_ws (hd ys)"
    unfolding ys_def by (rule hd_dropWhile)
  with ys tr show "\<not> is_ws (last (trim t))"
    by (simp add: last_rev)
  from ys have zs: "zs \<noteq> []"
    by (auto simp add: ys_def)
  then have dw: "dropWhile is_ws t \<noteq> []"
    by (simp add: zs_def)
  have "zs = takeWhile is_ws zs @ ys"
    by (simp add: ys_def)
  with ys have "last ys = last zs"
    by (metis last_appendR)
  also have "last zs = hd (dropWhile is_ws t)"
    using dw by (simp add: zs_def last_rev)
  finally have "hd (trim t) = hd (dropWhile is_ws t)"
    using ys tr by (simp add: hd_rev)
  with dw show "\<not> is_ws (hd (trim t))"
    by (simp add: hd_dropWhile)
qed

lemma trim_not_blank: "trim t \<noteq> [] \<Longrightarrow> \<not> list_all is_ws (trim t)"
proof
  assume ne: "trim t \<noteq> []" and "list_all is_ws (trim t)"
  then have "is_ws (hd (trim t))"
    by (cases "trim t") simp_all
  with trim_ends(1) [OF ne] show False by simp
qed

lemma or_null_trim_cases:
  "or_null (trim (nullish description [])) =
     (case description of None \<Rightarrow> None | Some t \<Rightarrow> if trim t = [] then None else Some (trim t))"
  by (simp add: or_null_def nullish_def trim_def split: option.split)

lemma review_insert_query_verb:
  "q_verb (review_insert_query i r) = Some (Insert (ReviewRow i r))"
  "q_from (review_insert_query i r) = ''reviews''"
  by (simp_all add: review_insert_query_def insert_row_def from_table_def)

lemma createSpotAt_requests:
  "fst (createSpotAt be lat lng name description initialRating s) =
     (if trim name = [] then []
      else case reply_error (be_single_spot be (spot_insert_query lat lng (trim name) description)) of
        Some e \<Rightarrow> [spot_insert_query lat lng (trim name) description]
      | None \<Rightarrow>
         (case reply_data (be_single_spot be (spot_insert_query lat lng (trim name) description)) of
            None \<Rightarrow> [spot_insert_query lat lng (trim name) description]
          | Some spot \<Rightarrow>
             if nullish initialRating 0 > 0
             then [spot_insert_query lat lng (trim name) description,
                   review_insert_query (sp_id spot) (nullish initialRating 0)]
             else [spot_insert_query lat lng (trim name) description]))"
  by (simp add: createSpotAt_def Let_def split: option.split)

lemma createSpotAt_v0_requests:
  "fst (createSpotAt_v0 be lat lng name description s) =
     (if trim name = [] then [] else [spot_insert_query lat lng (trim name) description])"
  by (simp add: createSpotAt_v0_def Let_def split: option.split)

text \<open>
  Claim C10, as stated, fails: the accessor \<open>createSpot\<close> of \<open>src/libs/spots.ts\<close> also
  creates spots, and it inserts the description as it is given; a description of one
  space is inserted as one space.
\<close>

theorem createSpot_description_counterexample:
  "fst (createSpot be_ok (js ''Ledge'') (Some (js '' '')) 42 (- 85)) =
     [insert_row (SpotRow (js ''Ledge'') (Some (js '' '')) 42 (- 85)) (from_table ''spots'')]
   \<and> q_verb (insert_row (SpotRow (js ''Ledge'') (Some (js '' '')) 42 (- 85))
        (from_table ''spots'')) =
       Some (Insert (SpotRow (js ''Ledge'') (Some (js '' '')) 42 (- 85)))
   \<and> list_all is_ws (js '' '')
   \<and> trim (js '' '') = []"
  by (simp add: createSpot_def Let_def insert_row_def from_table_def trim_def js_def is_ws_def)

text \<open>
  Claim C10, amended. In both screens, every insert into \<open>spots\<close> that \<open>createSpotAt\<close>
  issues carries as description \<open>null\<close> when the argument is missing or trims to the
  empty string, and the trimmed argument otherwise; a description that \<open>createSpotAt\<close>
  inserts is therefore never empty and never made of whitespace only. The accessor
  \<open>createSpot\<close> inserts the description it is given, \<open>null\<close> when there is none.
\<close>

theorem createSpotAt_description_normalized:
  "(\<forall>q \<in> set (fst (createSpotAt be lat lng name description initialRating s))
         \<union> set (fst (createSpotAt_v0 be lat lng name description s)).
     \<forall>n d la lo. q_verb q = Some (Insert (SpotRow n d la lo)) \<longrightarrow>
       d = (case description of
              None \<Rightarrow> None
            | Some t \<Rightarrow> if trim t = [] then None else Some (trim t))
       \<and> (\<forall>x. d = Some x \<longrightarrow> x \<noteq> [] \<and> \<not> list_all is_ws x))
   \<and> fst (createSpot be name description lat lng) =
       [insert_row (SpotRow name description lat lng) (from_table ''spots'')]
   \<and> q_verb (insert_row (SpotRow name description lat lng) (from_table ''spots'')) =
       Some (Insert (SpotRow name description lat lng))"
proof (rule conjI)
  show "\<forall>q \<in> set (fst (createSpotAt be lat lng name description initialRating s))
         \<union> set (fst (createSpotAt_v0 be lat lng name description s)).
     \<forall>n d la lo. q_verb q = Some (Insert (SpotRow n d la lo)) \<longrightarrow>
       d = (case description of
              None \<Rightarrow> None
            | Some t \<Rightarrow> if trim t = [] then None else Some (trim t))
       \<and> (\<forall>x. d = Some x \<longrightarrow> x \<noteq> [] \<and> \<not> list_all is_ws x)"
  proof (intro ballI allI impI)
    fix q n d la lo
    assume q: "q \<in> set (fst (createSpotAt be lat lng name description initialRating s))
           \<union> set (fst (createSpotAt_v0 be lat lng name description s))"
      and v: "q_verb q = Some (Insert (SpotRow n d la lo))"
    from q have "q = spot_insert_query lat lng (trim name) description
        \<or> (\<exists>i r. q = review_insert_query i r)"
      by (auto simp add: createSpotAt_requests createSpotAt_v0_requests
          split: if_splits option.splits)
    with v have "q = spot_insert_query lat lng (trim name) description"
      by (auto simp add: review_insert_query_verb)
    with v have d: "d = or_null (trim (nullish description []))"
      by (simp add: spot_insert_query_verb)
    then have cases: "d = (case description of
                None \<Rightarrow> None
              | Some t \<Rightarrow> if trim t = [] then None else Some (trim t))"
      by (simp only: or_null_trim_cases)
    have "x \<noteq> [] \<and> \<not> list_all is_ws x" if "d = Some x" for x
      using that cases trim_not_blank
      by (auto split: option.splits if_splits)
    with cases show "d = (case description of
                None \<Rightarrow> None
              | Some t \<Rightarrow> if trim t = [] then None else Some (trim t))
         \<and> (\<forall>x. d = Some x \<longrightarrow> x \<noteq> [] \<and> \<not> list_all is_ws x)"
      by blast
  qed
next
  show "fst (createSpot be name description lat lng) =
       [insert_row (SpotRow name description lat lng) (from_table ''spots'')]
   \<and> q_verb (insert_row (SpotRow name description lat lng) (from_table ''spots'')) =
       Some (Insert (SpotRow name description lat lng))"
    by (simp add: createSpot_def Let_def insert_row_def from_table_def)
qed

theorem createSpotAt_description_normalized_witness:
  "spot_insert_query 42 (- 85) (js ''Ledge'') (Some (js ''   '')) \<in>
      set (fst (createSpotAt be_ok 42 (- 85) (js ''Ledge'') (Some (js ''   '')) None initial))
   \<and> q_verb (spot_insert_query 42 (- 85) (js ''Ledge'') (Some (js ''   ''))) =
       Some (Insert (SpotRow (js ''Ledge'') None 42 (- 85)))
   \<and> spot_insert_query 42 (- 85) (js ''Ledge'') (Some (js '' ten ''))  \<in>
      set (fst (createSpotAt_v0 be_ok 42 (- 85) (js ''Ledge'') (Some (js '' ten '')) initial))
   \<and> q_verb (spot_insert_query 42 (- 85) (js ''Ledge'') (Some (js '' ten ''))) =
       Some (Insert (SpotRow (js ''Ledge'') (Some (js ''ten'')) 42 (- 85)))
   \<and> \<not> list_all is_ws (js ''ten'')"
proof -
  have t1: "trim (js ''Ledge'') = js ''Ledge''" "trim (js ''   '') = []"
    "trim (js '' ten '') = js ''ten''"
    by (simp_all add: trim_def js_def is_ws_def)
  have n: "js ''Ledge'' \<noteq> []" by (simp add: js_Nil_iff)
  have m1: "spot_insert_query 42 (- 85) (js ''Ledge'') (Some (js ''   '')) \<in>
      set (fst (createSpotAt be_ok 42 (- 85) (js ''Ledge'') (Some (js ''   '')) None initial))"
    by (simp add: createSpotAt_requests t1 n be_ok_def ok_reply_def nullish_def)
  have m2: "spot_insert_query 42 (- 85) (js ''Ledge'') (Some (js '' ten ''))  \<in>
      set (fst (createSpotAt_v0 be_ok 42 (- 85) (js ''Ledge'') (Some (js '' ten '')) initial))"
    by (simp add: createSpotAt_v0_requests t1 n)
  have v1: "q_verb (spot_insert_query 42 (- 85) (js ''Ledge'') (Some (js ''   ''))) =
       Some (Insert (SpotRow (js ''Ledge'') None 42 (- 85)))"
    by (simp add: spot_insert_query_verb nullish_def t1 or_null_def)
  have v2: "q_verb (spot_insert_query 42 (- 85) (js ''Ledge'') (Some (js '' ten ''))) =
       Some (Insert (SpotRow (js ''Ledge'') (Some (js ''ten'')) 42 (- 85)))"
    by (simp add: spot_insert_query_verb nullish_def t1 or_null_def js_Nil_iff)
  from createSpotAt_description_normalized [of be_ok 42 "- 85" "js ''Ledge''"
      "Some (js '' ten '')" None initial] m2 v2
  have "\<not> list_all is_ws (js ''ten'')"
    by blast
  with m1 m2 v1 v2 show ?thesis by blast
qed

subsection \<open>Backend errors\<close>

text \<open>
  Claim C9. When the backend answers the select of \<open>reload\<close>, the delete of
  \<open>deleteSpotById\<close> or the spot insert of \<open>createSpotAt\<close> (in either screen) with an
  error, the handler ends with \<open>error\<close> holding exactly the message of that error and
  with \<open>spots\<close> as before; the state is otherwise the state before (\<open>reload\<close> leaves
  \<open>loading\<close> false, as it is between handlers).
\<close>

theorem backend_error_sets_message:
  "(reply_error (be_select_spots be reload_query) = Some e \<longrightarrow>
      reload be s = ([reload_query], s\<lparr>error := Some (message e), loading := False\<rparr>)
      \<and> error (snd (reload be s)) = Some (message e)
      \<and> spots (snd (reload be s)) = spots s)
   \<and> (reply_error (be_write be (spot_delete_query i)) = Some e \<longrightarrow>
      deleteSpotById be i s = ([spot_delete_query i], s\<lparr>error := Some (message e)\<rparr>)
      \<and> deleteSpotById_v0 be i s = ([spot_delete_query i], s\<lparr>error := Some (message e)\<rparr>)
      \<and> error (snd (deleteSpotById be i s)) = Some (message e)
      \<and> spots (snd (deleteSpotById be i s)) = spots s)
   \<and> (trim name \<noteq> []
       \<and> reply_error (be_single_spot be (spot_insert_query lat lng (trim name) description)) = Some e
       \<longrightarrow>
      createSpotAt be lat lng name description initialRating s =
        ([spot_insert_query lat lng (trim name) description],
         Inr (s\<lparr>error := Some (message e)\<rparr>))
      \<and> createSpotAt_v0 be lat lng name description s =
        ([spot_insert_query lat lng (trim name) description], s\<lparr>error := Some (message e)\<rparr>)
      \<and> error (s\<lparr>error := Some (message e)\<rparr>) = Some (message e)
      \<and> spots (s\<lparr>error := Some (message e)\<rparr>) = spots s)"
proof (intro conjI impI)
  assume "reply_error (be_select_spots be reload_query) = Some e"
  then show r: "reload be s = ([reload_query], s\<lparr>error := Some (message e), loading := False\<rparr>)"
    by (simp add: reload_def Let_def)
  show "error (snd (reload be s)) = Some (message e)" "spots (snd (reload be s)) = spots s"
    by (simp_all add: r)
next
  assume "reply_error (be_write be (spot_delete_query i)) = Some e"
  then show d: "deleteSpotById be i s = ([spot_delete_query i], s\<lparr>error := Some (message e)\<rparr>)"
    and "deleteSpotById_v0 be i s = ([spot_delete_query i], s\<lparr>error := Some (message e)\<rparr>)"
    by (simp_all add: deleteSpotById_def deleteSpotById_v0_def Let_def)
  show "error (snd (deleteSpotById be i s)) = Some (message e)"
    "spots (snd (deleteSpotById be i s)) = spots s"
    by (simp_all add: d)
next
  assume "trim name \<noteq> []
       \<and> reply_error (be_single_spot be (spot_insert_query lat lng (trim name) description)) = Some e"
  then show "createSpotAt be lat lng name description initialRating s =
        ([spot_insert_query lat lng (trim name) description],
         Inr (s\<lparr>error := Some (message e)\<rparr>))"
    and "createSpotAt_v0 be lat lng name description s =
        ([spot_insert_query lat lng (trim name) description], s\<lparr>error := Some (message e)\<rparr>)"
    by (simp_all add: createSpotAt_def createSpotAt_v0_def Let_def)
next
  show "error (s\<lparr>error := Some (message e)\<rparr>) = Some (message e)"
    "spots (s\<lparr>error := Some (message e)\<rparr>) = spots s"
    by simp_all
qed

theorem backend_error_sets_message_witness:
  "reply_error (be_select_spots (be_down (js ''offline'')) reload_query) = Some (PgError (js ''offline''))
   \<and> reload (be_down (js ''offline'')) (initial\<lparr>spots := [ledge]\<rparr>) =
       ([reload_query], initial\<lparr>spots := [ledge], error := Some (js ''offline'')\<rparr>)
   \<and> reply_error (be_write (be_down (js ''offline'')) (spot_delete_query (js ''s1''))) =
       Some (PgError (js ''offline''))
   \<and> deleteSpotById (be_down (js ''offline'')) (js ''s1'') (initial\<lparr>spots := [ledge]\<rparr>) =
       ([spot_delete_query (js ''s1'')], initial\<lparr>spots := [ledge], error := Some (js ''offline'')\<rparr>)
   \<and> trim (js ''Rail'') \<noteq> []
   \<and> createSpotAt (be_down (js ''offline'')) 42 (- 85) (js ''Rail'') None (Some 5)
        (initial\<lparr>spots := [ledge]\<rparr>) =
       ([spot_insert_query 42 (- 85) (js ''Rail'') None],
         Inr (initial\<lparr>spots := [ledge], error := Some (js ''offline'')\<rparr>))"
  using backend_error_sets_message [of "be_down (js ''offline'')" "PgError (js ''offline'')"
      "initial\<lparr>spots := [ledge]\<rparr>" "js ''s1''" "js ''Rail''" 42 "- 85" None "Some 5"]
  by (simp add: be_down_def error_reply_def trim_def js_def is_ws_def initial_def)

subsection \<open>Requests issued\<close>

lemma builder_fields:
  "q_order reload_query = Some (''created_at'', False)"
  "q_limit reload_query = Some 500"
  "q_verb reload_query = Some (Select ''*'')"
  "q_from reload_query = ''spots''"
  "q_order (listSpots_query limit) = Some (''created_at'', False)"
  "q_limit (listSpots_query limit) = Some (nullish limit 100)"
  "q_verb (listSpots_query limit) = Some (Select ''*'')"
  "q_from (listSpots_query limit) = ''spots''"
  "q_verb (spot_delete_query i) = Some Delete"
  "q_eq (spot_delete_query i) = [(''id'', i)]"
  "q_from (spot_delete_query i) = ''spots''"
  by (simp_all add: reload_query_def listSpots_query_def spot_delete_query_def limit_rows_def
      order_by_def select_cols_def from_table_def eq_filter_def delete_rows_def)

lemma reload_requests: "fst (reload be s) = [reload_query]"
  by (simp add: reload_def Let_def split: option.split)

lemma deleteSpotById_requests:
  "fst (deleteSpotById be i s) = [spot_delete_query i]"
  "fst (deleteSpotById_v0 be i s) = [spot_delete_query i]"
  by (simp_all add: deleteSpotById_def deleteSpotById_v0_def Let_def split: option.split)

text \<open>
  Claim C6, as stated, fails: \<open>createSpotAt\<close> issues no request for a blank name and
  two requests (the spot insert, then a review insert) when a positive rating is given
  and the spot insert succeeds.
\<close>

theorem create_round_trips_counterexample:
  "length (fst (createSpotAt be_ok 42 (- 85) (js ''   '') None None initial)) = 0
   \<and> length (fst (createSpotAt_v0 be_ok 42 (- 85) (js ''   '') None initial)) = 0
   \<and> length (fst (createSpotAt be_ok 42 (- 85) (js ''Ledge'') None (Some 4) initial)) = 2"
  by (simp add: createSpotAt_def createSpotAt_v0_def Let_def trim_def js_def is_ws_def be_ok_def
      ok_reply_def empty_reply_def nullish_def)

text \<open>
  Claim C6, amended. Listing issues exactly one select (\<open>reload\<close>, \<open>listSpots\<close>) and
  deleting exactly one delete filtered by \<open>id\<close>; the accessor \<open>createSpot\<close> issues
  exactly one insert. \<open>createSpotAt\<close> issues no request when the trimmed name is empty
  and otherwise one spot insert, followed in \<open>app/index.tsx\<close> by one review insert
  when the spot insert returned a row without error and \<open>initialRating\<close> is positive.
\<close>

theorem spot_operation_round_trips:
  "fst (reload be s) = [reload_query]
   \<and> fst (listSpots be limit) = [listSpots_query limit]
   \<and> q_verb reload_query = Some (Select ''*'')
   \<and> q_verb (listSpots_query limit) = Some (Select ''*'')
   \<and> fst (deleteSpotById be i s) = [spot_delete_query i]
   \<and> fst (deleteSpotById_v0 be i s) = [spot_delete_query i]
   \<and> q_verb (spot_delete_query i) = Some Delete
   \<and> q_eq (spot_delete_query i) = [(''id'', i)]
   \<and> fst (createSpot be name description lat lng) =
       [insert_row (SpotRow name description lat lng) (from_table ''spots'')]
   \<and> fst (createSpotAt_v0 be lat lng name description s) =
       (if trim name = [] then [] else [spot_insert_query lat lng (trim name) description])
   \<and> fst (createSpotAt be lat lng name description initialRating s) =
       (if trim name = [] then []
        else case reply_error (be_single_spot be (spot_insert_query lat lng (trim name) description)) of
          Some e \<Rightarrow> [spot_insert_query lat lng (trim name) description]
        | None \<Rightarrow>
           (case reply_data (be_single_spot be (spot_insert_query lat lng (trim name) description)) of
              None \<Rightarrow> [spot_insert_query lat lng (trim name) description]
            | Some spot \<Rightarrow>
               if nullish initialRating 0 > 0
               then [spot_insert_query lat lng (trim name) description,
                     review_insert_query (sp_id spot) (nullish initialRating 0)]
               else [spot_insert_query lat lng (trim name) description]))"
proof (intro conjI)
  show "fst (createSpotAt be lat lng name description initialRating s) =
       (if trim name = [] then []
        else case reply_error (be_single_spot be (spot_insert_query lat lng (trim name) description)) of
          Some e \<Rightarrow> [spot_insert_query lat lng (trim name) description]
        | None \<Rightarrow>
           (case reply_data (be_single_spot be (spot_insert_query lat lng (trim name) description)) of
              None \<Rightarrow> [spot_insert_query lat lng (trim name) description]
            | Some spot \<Rightarrow>
               if nullish initialRating 0 > 0
               then [spot_insert_query lat lng (trim name) description,
                     review_insert_query (sp_id spot) (nullish initialRating 0)]
               else [spot_insert_query lat lng (trim name) description]))"
    by (rule createSpotAt_requests)
qed (simp_all add: reload_requests deleteSpotById_requests builder_fields
    createSpotAt_v0_requests listSpots_def createSpot_def Let_def)

theorem spot_operation_round_trips_witness:
  "fst (createSpotAt be_ok 42 (- 85) (js ''Ledge'') None (Some 4) initial) =
     [spot_insert_query 42 (- 85) (js ''Ledge'') None, review_insert_query (js ''s1'') 4]
   \<and> fst (createSpotAt be_ok 42 (- 85) (js ''Ledge'') None None initial) =
     [spot_insert_query 42 (- 85) (js ''Ledge'') None]
   \<and> fst (deleteSpotById be_ok (js ''s1'') initial) = [spot_delete_query (js ''s1'')]"
  using spot_operation_round_trips [of be_ok initial None "js ''s1''" "js ''Ledge''" None 42
      "- 85" "Some 4"]
    spot_operation_round_trips [of be_ok initial None "js ''s1''" "js ''Ledge''" None 42
      "- 85" None]
  by (simp add: trim_def js_def is_ws_def be_ok_def ok_reply_def nullish_def ledge_def)

subsection \<open>Listing\<close>

text \<open>
  Claim C8, as stated, fails: the listing paths do not share one limit. \<open>listSpots\<close>
  caps at its argument, 100 by default, and \<open>reload\<close> caps at 500.
\<close>

theorem listing_limit_counterexample:
  "q_limit (hd (fst (listSpots be_ok None))) = Some 100
   \<and> q_limit (hd (fst (reload be_ok initial))) = Some 500
   \<and> q_limit (hd (fst (listSpots be_ok (Some 7)))) = Some 7
   \<and> q_limit (hd (fst (listSpots be_ok None))) \<noteq> q_limit (hd (fst (reload be_ok initial)))"
  by (simp add: listSpots_def reload_requests builder_fields nullish_def)

text \<open>
  Claim C8, amended. Every listing path issues one select ordered by \<open>created_at\<close>
  descending and capped by a row limit: 500 in \<open>reload\<close> (both screens), and in
  \<open>listSpots\<close> the argument \<open>limit\<close>, 100 when it is not given.
\<close>

theorem listing_order_and_limit:
  "fst (reload be s) = [reload_query]
   \<and> fst (listSpots be limit) = [listSpots_query limit]
   \<and> q_order reload_query = Some (''created_at'', False)
   \<and> q_order (listSpots_query limit) = Some (''created_at'', False)
   \<and> q_limit reload_query = Some 500
   \<and> q_limit (listSpots_query limit) = Some (case limit of None \<Rightarrow> 100 | Some n \<Rightarrow> n)"
  by (simp add: listSpots_def reload_requests builder_fields nullish_def)

subsection \<open>Ratings of the reviews sent\<close>

lemma Stars_handlers:
  "Stars onChange = [onChange 1, onChange 2, onChange 3, onChange 4, onChange 5]"
  by (simp add: Stars_def)

lemma press_Stars:
  "press (Stars onChange) i s = s
   \<or> (\<exists>n \<in> {1, 2, 3, 4, 5}. press (Stars onChange) i s = onChange n s)"
proof (cases "i < 5")
  case True
  then have "i = 0 \<or> i = 1 \<or> i = 2 \<or> i = 3 \<or> i = 4" by arith
  then show ?thesis
    by (auto simp add: press_def Stars_handlers)
next
  case False
  then show ?thesis by (simp add: press_def Stars_handlers)
qed

lemma star_or_zero_simps:
  "star_or_zero 0" "star_or_zero 1" "star_or_zero 2" "star_or_zero 3" "star_or_zero 4"
  "star_or_zero 5"
  by (simp_all add: star_or_zero_def)

lemma star_or_zero_pos: "star_or_zero v \<Longrightarrow> v > 0 \<Longrightarrow> v \<in> {1, 2, 3, 4, 5}"
  by (auto simp add: star_or_zero_def)

lemma press_Stars_spotRating:
  assumes "ratings_in_range s"
  shows "ratings_in_range (press (Stars setSpotRating) i s)"
  using press_Stars [of setSpotRating i s] assms
  by (auto simp add: setSpotRating_def ratings_in_range_def star_or_zero_simps)

lemma press_Stars_newReviewRating:
  assumes "ratings_in_range s"
  shows "ratings_in_range (press (Stars setNewReviewRating) i s)"
  using press_Stars [of setNewReviewRating i s] assms
  by (auto simp add: setNewReviewRating_def ratings_in_range_def star_or_zero_simps)

lemma loadReviews_ratings:
  "spotRating (snd (loadReviews be i s)) = spotRating s"
  "newReviewRating (snd (loadReviews be i s)) = newReviewRating s"
  by (simp_all add: loadReviews_def Let_def split: option.split)

lemma loadReviews_requests: "review_rating q \<noteq> Some r" if "q \<in> set (fst (loadReviews be i s))"
  using that
  by (auto simp add: loadReviews_def Let_def review_rating_def order_by_def eq_filter_def
      select_cols_def from_table_def split: option.splits)

lemma createSpotAt_ratings:
  assumes "createSpotAt be la lo n d r s = (qs, Inr s')"
  shows "spotRating s' = spotRating s \<and> newReviewRating s' = newReviewRating s"
  using assms
  by (auto simp add: createSpotAt_def Let_def split: if_splits option.splits)

lemma review_rating_simps:
  "review_rating (review_insert_query i r) = Some r"
  "review_rating (spot_insert_query la lo n d) = None"
  "review_rating reload_query = None"
  "review_rating (spot_delete_query i) = None"
  by (simp_all add: review_rating_def review_insert_query_verb spot_insert_query_verb
      builder_fields)

lemma step_ratings:
  assumes inv: "ratings_in_range s" and st: "step be ev s = (qs, Inr s')"
  shows "ratings_in_range s'"
proof (cases ev)
  case Mount
  with inv st show ?thesis
    by (auto simp add: finished_def reload_def Let_def ratings_in_range_def split: option.splits)
next
  case (Located l)
  with inv st show ?thesis
    by (cases l) (auto simp add: finished_def locate_def ratings_in_range_def)
next
  case (PressSpotStar i)
  with inv st press_Stars_spotRating [of s i] show ?thesis
    by (auto simp add: finished_def)
next
  case PressCreate
  show ?thesis
  proof (cases "pendingCoord s")
    case None
    with PressCreate inv st show ?thesis by (simp add: pressCreate_def)
  next
    case (Some c)
    obtain la lo where c: "c = (la, lo)" by (cases c)
    obtain qs1 r1 where r: "createSpotAt be la lo (spotName s) (Some (spotDesc s)) (Some (spotRating s)) s = (qs1, r1)"
      by (cases "createSpotAt be la lo (spotName s) (Some (spotDesc s)) (Some (spotRating s)) s")
    with PressCreate Some c st obtain s1 where r1: "r1 = Inr s1" and s': "s' = s1\<lparr>createOpen := False\<rparr>"
      by (cases r1) (auto simp add: pressCreate_def)
    from createSpotAt_ratings [OF r [unfolded r1]] inv s' show ?thesis
      by (simp add: ratings_in_range_def)
  qed
next
  case (PressMarker i)
  with inv st loadReviews_ratings show ?thesis
    by (auto simp add: finished_def openSpotDetails_def Let_def ratings_in_range_def
        star_or_zero_simps split: if_splits)
next
  case (PressReviewStar i)
  with inv st press_Stars_newReviewRating [of s i] show ?thesis
    by (auto simp add: finished_def)
next
  case SubmitReview
  with inv st loadReviews_ratings show ?thesis
    by (auto simp add: finished_def addReviewForSelectedSpot_def Let_def ratings_in_range_def
        star_or_zero_simps split_beta split: option.splits if_splits)
next
  case (PressDelete i)
  with inv st show ?thesis
    by (auto simp add: finished_def deleteSpotById_def Let_def ratings_in_range_def
        split: option.splits if_splits)
qed (use inv st in \<open>auto simp add: finished_def onLongPress_def Let_def ratings_in_range_def
    star_or_zero_simps\<close>)

lemma step_requests:
  assumes inv: "ratings_in_range s" and q: "q \<in> set (fst (step be ev s))"
    and r: "review_rating q = Some r"
  shows "r \<in> {1, 2, 3, 4, 5}"
proof (cases ev)
  case Mount
  with q r show ?thesis
    by (simp add: finished_def reload_requests review_rating_simps)
next
  case PressCreate
  show ?thesis
  proof (cases "pendingCoord s")
    case None
    with PressCreate q show ?thesis by (simp add: pressCreate_def)
  next
    case (Some c)
    obtain la lo where c: "c = (la, lo)" by (cases c)
    have "fst (pressCreate be s) =
        fst (createSpotAt be la lo (spotName s) (Some (spotDesc s)) (Some (spotRating s)) s)"
      using Some c by (auto simp add: pressCreate_def split: prod.splits sum.splits)
    with PressCreate q
    have "q \<in> set (fst (createSpotAt be la lo (spotName s) (Some (spotDesc s)) (Some (spotRating s)) s))"
      by simp
    with r have "r = spotRating s \<and> spotRating s > 0"
      by (auto simp add: createSpotAt_requests review_rating_simps nullish_def
          split: if_splits option.splits)
    with inv star_or_zero_pos [of "spotRating s"] show ?thesis
      by (simp add: ratings_in_range_def)
  qed
next
  case (PressMarker i)
  with q r loadReviews_requests show ?thesis
    by (auto simp add: finished_def openSpotDetails_def Let_def split: if_splits)
next
  case SubmitReview
  with q have "q \<in> set (fst (addReviewForSelectedSpot be s))"
    by (simp add: finished_def)
  with r loadReviews_requests have "r = newReviewRating s \<and> newReviewRating s > 0"
    by (auto simp add: addReviewForSelectedSpot_def Let_def split_beta review_rating_simps
        split: option.splits if_splits)
  with inv star_or_zero_pos [of "newReviewRating s"] show ?thesis
    by (simp add: ratings_in_range_def)
next
  case (PressDelete i)
  with q r show ?thesis
    by (simp add: finished_def deleteSpotById_requests review_rating_simps)
qed (use q in \<open>simp_all add: finished_def\<close>)

lemma run_requests:
  assumes "ratings_in_range s" and "q \<in> set (fst (run tr s))" and "review_rating q = Some r"
  shows "r \<in> {1, 2, 3, 4, 5}"
  using assms
proof (induction tr arbitrary: s)
  case Nil
  then show ?case by simp
next
  case (Cons bev tr)
  obtain qs res where st: "step (fst bev) (snd bev) s = (qs, res)"
    by (cases "step (fst bev) (snd bev) s")
  show ?case
  proof (cases res)
    case (Inl e)
    with st Cons.prems(2) have "q \<in> set (fst (step (fst bev) (snd bev) s))" by simp
    then show ?thesis
      by (rule step_requests [OF Cons.prems(1) _ Cons.prems(3)])
  next
    case (Inr s')
    with st Cons.prems(2) have "q \<in> set (fst (step (fst bev) (snd bev) s)) \<or> q \<in> set (fst (run tr s'))"
      by auto
    moreover have "ratings_in_range s'"
      using step_ratings [OF Cons.prems(1)] st Inr by simp
    ultimately show ?thesis
    proof (elim disjE)
      assume "q \<in> set (fst (step (fst bev) (snd bev) s))"
      then show ?thesis
        by (rule step_requests [OF Cons.prems(1) _ Cons.prems(3)])
    next
      assume "q \<in> set (fst (run tr s'))" and "ratings_in_range s'"
      then show ?thesis
        using Cons.prems(3) Cons.IH [of s'] by simp
    qed
  qed
qed

lemma initial_ratings: "ratings_in_range initial"
  by (simp add: ratings_in_range_def initial_def star_or_zero_simps)

text \<open>
  Claim C7. In every run of the screen from its initial state, every request that
  inserts a review carries a rating among 1, 2, 3, 4 and 5. The two reasons:
  \<open>addReviewForSelectedSpot\<close> issues no request when the rating is not positive (and,
  with a spot selected, sets \<open>error\<close> to \<open>Please choose a rating.\<close>); and the presses
  of \<open>Stars\<close> call \<open>onChange\<close> with 1, 2, 3, 4 or 5 only.
\<close>

theorem review_ratings_in_range:
  "(\<forall>q \<in> set (fst (run tr initial)). \<forall>r. review_rating q = Some r \<longrightarrow> r \<in> {1, 2, 3, 4, 5})
   \<and> (newReviewRating s \<le> 0 \<longrightarrow> fst (addReviewForSelectedSpot be s) = [])
   \<and> (newReviewRating s \<le> 0 \<and> selectedSpot s = Some sel \<longrightarrow>
        addReviewForSelectedSpot be s = ([], s\<lparr>error := Some (js ''Please choose a rating.'')\<rparr>))
   \<and> Stars onChange = map onChange [1, 2, 3, 4, 5]"
proof (intro conjI ballI allI impI)
  fix q r
  assume "q \<in> set (fst (run tr initial))" and "review_rating q = Some r"
  with initial_ratings show "r \<in> {1, 2, 3, 4, 5}"
    by (rule run_requests)
next
  assume "newReviewRating s \<le> 0"
  then show "fst (addReviewForSelectedSpot be s) = []"
    by (simp add: addReviewForSelectedSpot_def Let_def split: option.split)
next
  assume "newReviewRating s \<le> 0 \<and> selectedSpot s = Some sel"
  then show "addReviewForSelectedSpot be s =
      ([], s\<lparr>error := Some (js ''Please choose a rating.'')\<rparr>)"
    by (simp add: addReviewForSelectedSpot_def Let_def)
next
  show "Stars onChange = map onChange [1, 2, 3, 4, 5]"
    by (simp add: Stars_def)
qed

theorem review_ratings_in_range_witness:
  "review_insert_query (js ''s2'') 4 \<in> set (fst (run [(be_ok, Mount), (be_ok, PressMarker 0),
       (be_ok, PressReviewStar 3), (be_ok, SubmitReview)] initial))
   \<and> review_rating (review_insert_query (js ''s2'') 4) = Some 4
   \<and> (4 :: number) \<in> {1, 2, 3, 4, 5}
   \<and> newReviewRating (initial\<lparr>selectedSpot := Some stairs\<rparr>) \<le> 0
   \<and> selectedSpot (initial\<lparr>selectedSpot := Some stairs\<rparr>) = Some stairs
   \<and> addReviewForSelectedSpot be_ok (initial\<lparr>selectedSpot := Some stairs\<rparr>) =
       ([], initial\<lparr>selectedSpot := Some stairs,
              error := Some (js ''Please choose a rating.'')\<rparr>)"
proof -
  have sent: "review_insert_query (js ''s2'') 4 \<in> set (fst (run [(be_ok, Mount),
       (be_ok, PressMarker 0), (be_ok, PressReviewStar 3), (be_ok, SubmitReview)] initial))"
    by (simp add: finished_def reload_def Let_def be_ok_def ok_reply_def empty_reply_def
        nullish_def initial_def openSpotDetails_def loadReviews_def press_def Stars_def
        setNewReviewRating_def addReviewForSelectedSpot_def split_beta stairs_def)
  have rating: "review_rating (review_insert_query (js ''s2'') 4) = Some 4"
    by (simp add: review_rating_simps)
  have st: "newReviewRating (initial\<lparr>selectedSpot := Some stairs\<rparr>) \<le> 0"
    "selectedSpot (initial\<lparr>selectedSpot := Some stairs\<rparr>) = Some stairs"
    by (simp_all add: initial_def)
  from review_ratings_in_range [of "[(be_ok, Mount), (be_ok, PressMarker 0),
       (be_ok, PressReviewStar 3), (be_ok, SubmitReview)]" "initial\<lparr>selectedSpot := Some stairs\<rparr>"
       be_ok stairs] sent rating st
  show ?thesis by simp
qed

subsection \<open>Nearby places\<close>





lemma normalize_el_null: "nullish_val el \<Longrightarrow> normalize_el numStr el = Inl TypeError"
  by (simp add: normalize_el_def read_prop_def)





lemma map_exn_raises:
  "\<exists>x \<in> set xs. f x = Inl TypeError \<Longrightarrow> map_exn f xs = Inl TypeError"
proof (induction xs)
  case Nil
  then show ?case by simp
next
  case (Cons x xs)
  then show ?case
    by (cases "f x"; cases "map_exn f xs") (auto intro: exn.exhaust)
qed

lemma normalized_of_elements:
  assumes "\<not> nullish_val json" and "get_member json (js ''elements'') = Arr els"
  shows "normalized numStr json =
     (case map_exn (normalize_el numStr) els of
        Inl e \<Rightarrow> Inl e
      | Inr ps \<Rightarrow> Inr (filter_Boolean ps))"
  using assms by (simp add: normalized_def read_prop_def coalesce_def nullish_val_def)

text \<open>
  Outside the format of the Overpass API the normalisation behaves as follows. A
  \<open>null\<close> element, or a kept element whose \<open>type\<close> or \<open>id\<close> has no text, makes the
  whole normalisation raise, so that no list is produced; and an element whose own
  latitude is there but is not a number is dropped whatever its centre holds.
\<close>

lemma normalized_null_element:
  assumes "\<not> nullish_val json" and "get_member json (js ''elements'') = Arr els"
    and "\<exists>el \<in> set els. nullish_val el"
  shows "normalized numStr json = Inl TypeError"
proof -
  from assms(3) have "\<exists>el \<in> set els. normalize_el numStr el = Inl TypeError"
    by (blast intro: normalize_el_null)
  then have "map_exn (normalize_el numStr) els = Inl TypeError"
    by (rule map_exn_raises)
  with assms(1,2) show ?thesis
    by (simp add: normalized_of_elements)
qed

lemma normalized_untexted_element:
  "normalize_el numStr untexted_el = Inl TypeError"
  "normalized numStr (Obj [(js ''elements'', Arr [node_el, untexted_el])]) = Inl TypeError"
  by (simp_all add: untexted_el_def node_el_def normalize_el_def normalized_def read_prop_def
      opt_prop_def coalesce_def nullish_val_def js_def Let_def)

lemma normalized_string_latitude:
  "spec_numeric_coordinate odd_el (js ''lat'')"
  "spec_numeric_coordinate odd_el (js ''lon'')"
  "normalize_el numStr odd_el = Inr None"
  "\<not> overpass_element odd_el"
  by (simp_all add: spec_numeric_coordinate_def overpass_element_def number_or_missing_def
      odd_el_def normalize_el_def read_prop_def opt_prop_def coalesce_def nullish_val_def js_def
      Let_def)






end
